theory Spec2Isabelle
  imports Complex_Main "HOL-Library.Sublist" "HOL-Library.Multiset"
begin

section \<open>JavaScript values\<close>

text \<open>
  A value read from a parsed JSON document may be missing (\<open>undefined\<close>), \<open>null\<close> or
  present. The two absent values are kept apart because the relational operators treat them
  differently (\<open>null <= 30\<close> is true, \<open>undefined <= 30\<close> is false).
\<close>

datatype 'a nullable = Undefined | Null | Val 'a

text \<open>\<open>v == null\<close>: true for \<open>null\<close> and for \<open>undefined\<close>.\<close>

fun eq_null :: "'a nullable \<Rightarrow> bool" where
  "eq_null Undefined = True"
| "eq_null Null = True"
| "eq_null (Val _) = False"

text \<open>
  Numbers. A number stored in a JSON document is a finite binary64 value and is modelled by the
  rational it denotes (\<open>-0\<close> and \<open>0\<close> are identified). The results of arithmetic are values of
  \<open>jsnum\<close>, which adds the two infinities and NaN.
\<close>

datatype jsnum = NaN | PosInf | NegInf | Fin rat

datatype error = TypeError | RangeError | EChartsError

subsection \<open>Rounding to binary64\<close>

function bits :: "int \<Rightarrow> int" where
  "bits n = (if n \<le> 0 then 0 else 1 + bits (n div 2))"
  by pat_completeness auto
termination
  by (relation "measure nat") auto

declare bits.simps [simp del]

definition pow2 :: "int \<Rightarrow> rat" where
  "pow2 e = (if 0 \<le> e then 2 ^ nat e else 1 / 2 ^ nat (- e))"

text \<open>\<open>ilog2 a\<close> is the exponent \<open>e\<close> with \<open>2^e \<le> a < 2^(e+1)\<close>, for \<open>a > 0\<close>.\<close>

definition ilog2 :: "rat \<Rightarrow> int" where
  "ilog2 a =
     (if 1 \<le> a then bits \<lfloor>a\<rfloor> - 1
      else let b = 1 / a; f = \<lfloor>b\<rfloor>
           in - bits (if of_int f = b then f - 1 else f))"

definition round_half_even :: "rat \<Rightarrow> int" where
  "round_half_even m =
     (let f = \<lfloor>m\<rfloor>; d = m - of_int f
      in if d < 1 / 2 then f else if 1 / 2 < d then f + 1 else if even f then f else f + 1)"

definition max_double :: rat where
  "max_double = 179769313486231570814527423731704356798070567525844996598917476803157260780028538760589558632766878171540458953514382464234321326889464182768467546703537516986049910576551282076245490090389328944075868508455133942304583236903222948165808559332123348274797826204144723168738177180919299881250404026184124858368"

text \<open>
  \<open>fl x\<close>: the binary64 value nearest to the real number \<open>x\<close> (ties to even), with gradual
  underflow below \<open>2^-1022\<close> and overflow to an infinity.
\<close>

definition fl :: "rat \<Rightarrow> jsnum" where
  "fl x =
     (if x = 0 then Fin 0
      else let a = \<bar>x\<bar>;
               u = pow2 (max (ilog2 a - 52) (- 1074));
               r = of_int (round_half_even (a / u)) * u
           in if max_double < r then (if x < 0 then NegInf else PosInf)
              else Fin (if x < 0 then - r else r))"

text \<open>
  A decimal literal of the program text, such as \<open>0.1234\<close>, denotes the binary64 value
  nearest to it. (No literal used here overflows.)
\<close>

definition number_literal :: "rat \<Rightarrow> rat" where
  "number_literal q = (case fl q of Fin x \<Rightarrow> x | _ \<Rightarrow> q)"

text \<open>\<open>a * b\<close> and \<open>a / b\<close> on finite numbers, \<open>b\<close> a non-zero constant at every use.\<close>

definition js_mul :: "rat \<Rightarrow> rat \<Rightarrow> jsnum" where
  "js_mul a b = fl (a * b)"

definition js_div :: "rat \<Rightarrow> rat \<Rightarrow> jsnum" where
  "js_div a b =
     (if b = 0 then (if a = 0 then NaN else if 0 < a then PosInf else NegInf)
      else fl (a / b))"

subsection \<open>Numbers to strings\<close>

text \<open>
  What depends on the host is a parameter of the model: \<open>Number.prototype.toString\<close> with its
  shortest round-trip digits, \<open>toLocaleString()\<close> in the browser's default locale, and the
  HTML parser on table rows whose strings contain characters that it gives a meaning to (from
  the strings of each row to the ids of the elements that the parsed markup has).
\<close>

record host =
  numberToString :: "rat \<Rightarrow> string"
  toLocaleStringDefault :: "rat \<Rightarrow> string"
  parseRows :: "string list list \<Rightarrow> string list"

text \<open>A host for concrete evaluations, whose conversions print nothing.\<close>

definition sample_host :: host where
  "sample_host =
     \<lparr> numberToString = (\<lambda>x. []), toLocaleStringDefault = (\<lambda>x. []), parseRows = (\<lambda>rs. []) \<rparr>"

definition digit_char :: "int \<Rightarrow> char" where
  "digit_char d = ''0123456789'' ! nat d"

function decimal :: "int \<Rightarrow> string" where
  "decimal n = (if n < 10 then [digit_char n] else decimal (n div 10) @ [digit_char (n mod 10)])"
  by pat_completeness auto
termination
  by (relation "measure nat") auto

declare decimal.simps [simp del]

text \<open>
  The digits of \<open>n\<close> with a decimal point before the last \<open>f\<close> of them, padded with zeros on
  the left so that at least one digit stands before the point.
\<close>

definition fixed_digits :: "nat \<Rightarrow> int \<Rightarrow> string" where
  "fixed_digits f n =
     (let m = decimal n;
          m' = (if length m \<le> f then replicate (f + 1 - length m) (CHR ''0'') @ m else m);
          k = length m'
      in if f = 0 then m' else take (k - f) m' @ ''.'' @ drop (k - f) m')"

text \<open>The integer nearest to \<open>x * 10^f\<close> for \<open>x \<ge> 0\<close>, the larger one of two.\<close>

definition scaled_round :: "nat \<Rightarrow> rat \<Rightarrow> int" where
  "scaled_round f x = \<lfloor>x * 10 ^ f + 1 / 2\<rfloor>"

text \<open>\<open>Number.prototype.toFixed(f)\<close> for a literal \<open>f\<close> in \<open>0..100\<close>.\<close>

fun toFixed :: "host \<Rightarrow> nat \<Rightarrow> jsnum \<Rightarrow> string" where
  "toFixed h f NaN = ''NaN''"
| "toFixed h f PosInf = ''Infinity''"
| "toFixed h f NegInf = ''-Infinity''"
| "toFixed h f (Fin x) =
     (let s = (if x < 0 then ''-'' else ''''); a = \<bar>x\<bar>
      in if 1000000000000000000000 \<le> a then s @ numberToString h a
         else s @ fixed_digits f (scaled_round f a))"

text \<open>Digit grouping of the \<open>en-US\<close> locale: a comma before every group of three digits.\<close>

fun group3 :: "string \<Rightarrow> string" where
  "group3 ds =
     (if length ds \<le> 3 then ds
      else group3 (take (length ds - 3) ds) @ '','' @ drop (length ds - 3) ds)"

declare group3.simps [simp del]

text \<open>
  \<open>num.toLocaleString('en-US', {minimumFractionDigits: d, maximumFractionDigits: d})\<close>:
  rounding half away from zero to \<open>d\<close> fraction digits, grouped integer part, and a
  \<open>RangeError\<close> for more than 100 fraction digits.
\<close>

definition enUS_fixed :: "nat \<Rightarrow> rat \<Rightarrow> string" where
  "enUS_fixed d x =
     (let s = (if x < 0 then ''-'' else '''');
          n = scaled_round d \<bar>x\<bar>;
          ip = decimal (n div 10 ^ d);
          fp = drop (length (fixed_digits d n) - d) (fixed_digits d n)
      in s @ group3 ip @ (if d = 0 then '''' else ''.'' @ fp))"

definition toLocaleString_enUS :: "nat \<Rightarrow> rat \<Rightarrow> error + string" where
  "toLocaleString_enUS d x = (if 100 < d then Inl RangeError else Inr (enUS_fixed d x))"

section \<open>charts.js: palette and formatting\<close>

record colors =
  gain :: string
  loss :: string
  accent :: string
  grid :: string
  text_color :: string
  textLight :: string
  bg :: string
  ma5_color :: string
  ma10_color :: string
  ma20_color :: string
  ma50_color :: string
  ma200_color :: string
  bbUpper :: string
  bbLower :: string
  bbMid :: string
  volume_color :: string
  volumeUp :: string
  volumeDown :: string

definition COLORS :: colors where
  "COLORS = \<lparr>
     gain = ''#22c55e'',
     loss = ''#ef4444'',
     accent = ''#3b82f6'',
     grid = ''#1e293b'',
     text_color = ''#6b7280'',
     textLight = ''#9ca3af'',
     bg = ''#111827'',
     ma5_color = ''#f59e0b'',
     ma10_color = ''#8b5cf6'',
     ma20_color = ''#3b82f6'',
     ma50_color = ''#ec4899'',
     ma200_color = ''#14b8a6'',
     bbUpper = ''rgba(59, 130, 246, 0.3)'',
     bbLower = ''rgba(59, 130, 246, 0.3)'',
     bbMid = ''#3b82f6'',
     volume_color = ''rgba(59, 130, 246, 0.3)'',
     volumeUp = ''rgba(34, 197, 94, 0.4)'',
     volumeDown = ''rgba(239, 68, 68, 0.4)'' \<rparr>"

text \<open>\<open>formatNumber(num, decimals = 2)\<close>\<close>

fun formatNumber :: "rat nullable \<Rightarrow> nat \<Rightarrow> error + string" where
  "formatNumber (Val num) decimals = toLocaleString_enUS decimals num"
| "formatNumber _ decimals = Inr ''-''"

text \<open>\<open>formatNumber(num)\<close>, as every caller writes it: two decimals, and no \<open>RangeError\<close>.\<close>

fun formatNumber_default :: "rat nullable \<Rightarrow> string" where
  "formatNumber_default (Val num) = enUS_fixed 2 num"
| "formatNumber_default _ = ''-''"

text \<open>\<open>formatPercent(num)\<close>\<close>

fun formatPercent :: "host \<Rightarrow> rat nullable \<Rightarrow> string" where
  "formatPercent h (Val num) =
     (let pct = toFixed h 2 (js_mul num 100)
      in (if 0 \<le> num then ''+'' else '''') @ pct @ ''%'')"
| "formatPercent h _ = ''-''"

text \<open>\<open>formatMarketCap(num)\<close>\<close>

fun formatMarketCap :: "host \<Rightarrow> rat nullable \<Rightarrow> string" where
  "formatMarketCap h (Val num) =
     (if 1000000000000 \<le> num then ''$'' @ toFixed h 2 (js_div num (1000000000000)) @ ''T''
      else if 1000000000 \<le> num then ''$'' @ toFixed h 2 (js_div num (1000000000)) @ ''B''
      else if 1000000 \<le> num then ''$'' @ toFixed h 2 (js_div num (1000000)) @ ''M''
      else ''$'' @ toLocaleStringDefault h num)"
| "formatMarketCap h _ = ''-''"

text \<open>\<open>formatVolume(num)\<close>\<close>

fun formatVolume :: "host \<Rightarrow> rat nullable \<Rightarrow> string" where
  "formatVolume h (Val num) =
     (if 1000000000 \<le> num then toFixed h 2 (js_div num (1000000000)) @ ''B''
      else if 1000000 \<le> num then toFixed h 2 (js_div num (1000000)) @ ''M''
      else if 1000 \<le> num then toFixed h 1 (js_div num (1000)) @ ''K''
      else numberToString h num)"
| "formatVolume h _ = ''-''"

text \<open>\<open>colorForValue(val)\<close>\<close>

fun colorForValue :: "rat nullable \<Rightarrow> string" where
  "colorForValue (Val v) = (if 0 \<le> v then gain COLORS else loss COLORS)"
| "colorForValue _ = text_color COLORS"

text \<open>\<open>rsiColor(rsi)\<close>\<close>

fun rsiColor :: "rat nullable \<Rightarrow> string" where
  "rsiColor (Val rsi) =
     (if 70 \<le> rsi then loss COLORS else if rsi \<le> 30 then gain COLORS else textLight COLORS)"
| "rsiColor _ = text_color COLORS"

text \<open>\<open>rsiLabel(rsi)\<close>\<close>

fun rsiLabel :: "rat nullable \<Rightarrow> string" where
  "rsiLabel (Val rsi) =
     (if 70 \<le> rsi then ''Overbought'' else if rsi \<le> 30 then ''Oversold'' else ''Neutral'')"
| "rsiLabel _ = ''N/A''"

section \<open>Strings and comparisons\<close>

text \<open>
  Strings are lists of characters, a character being a code unit below 256 (Basic Latin and
  Latin-1), which is what ticker symbols, company names and sector names are written in.
  The letters with a lower-case form are \<open>A\<close> to \<open>Z\<close> and the Latin-1 capitals \<open>0xC0\<close> to \<open>0xDE\<close>
  without the multiplication sign \<open>0xD7\<close>.
\<close>

definition upper_letters :: string where
  "upper_letters =
     ''ABCDEFGHIJKLMNOPQRSTUVWXYZ'' @
       [CHR 0xC0, CHR 0xC1, CHR 0xC2, CHR 0xC3, CHR 0xC4, CHR 0xC5, CHR 0xC6, CHR 0xC7,
        CHR 0xC8, CHR 0xC9, CHR 0xCA, CHR 0xCB, CHR 0xCC, CHR 0xCD, CHR 0xCE, CHR 0xCF,
        CHR 0xD0, CHR 0xD1, CHR 0xD2, CHR 0xD3, CHR 0xD4, CHR 0xD5, CHR 0xD6, CHR 0xD8,
        CHR 0xD9, CHR 0xDA, CHR 0xDB, CHR 0xDC, CHR 0xDD, CHR 0xDE]"

definition lower_letters :: string where
  "lower_letters =
     ''abcdefghijklmnopqrstuvwxyz'' @
       [CHR 0xE0, CHR 0xE1, CHR 0xE2, CHR 0xE3, CHR 0xE4, CHR 0xE5, CHR 0xE6, CHR 0xE7,
        CHR 0xE8, CHR 0xE9, CHR 0xEA, CHR 0xEB, CHR 0xEC, CHR 0xED, CHR 0xEE, CHR 0xEF,
        CHR 0xF0, CHR 0xF1, CHR 0xF2, CHR 0xF3, CHR 0xF4, CHR 0xF5, CHR 0xF6, CHR 0xF8,
        CHR 0xF9, CHR 0xFA, CHR 0xFB, CHR 0xFC, CHR 0xFD, CHR 0xFE]"

definition toLowerCase_char :: "char \<Rightarrow> char" where
  "toLowerCase_char c =
     (case map_of (zip upper_letters lower_letters) c of None \<Rightarrow> c | Some l \<Rightarrow> l)"

definition toLowerCase :: "string \<Rightarrow> string" where
  "toLowerCase s = map toLowerCase_char s"

text \<open>\<open>s.includes(t)\<close>: \<open>t\<close> occurs in \<open>s\<close> as a contiguous run of characters.\<close>

definition str_includes :: "string \<Rightarrow> string \<Rightarrow> bool" where
  "str_includes s t = sublist t s"

text \<open>\<open>s.split('-')\<close>\<close>

fun split_dash :: "string \<Rightarrow> string list" where
  "split_dash [] = [[]]"
| "split_dash (c # cs) =
     (if c = CHR ''-'' then [] # split_dash cs
      else (case split_dash cs of [] \<Rightarrow> [[c]] | p # ps \<Rightarrow> (c # p) # ps))"

datatype jsval = VUndefined | VNull | VBool bool | VNum jsnum | VStr string

subsection \<open>Strings as numbers\<close>

definition is_ws :: "char \<Rightarrow> bool" where
  "is_ws c = (c \<in> set [CHR '' '', CHR 0x09, CHR 0x0A, CHR 0x0B, CHR 0x0C, CHR 0x0D, CHR 0xA0])"

definition trim :: "string \<Rightarrow> string" where
  "trim s = rev (dropWhile is_ws (rev (dropWhile is_ws s)))"

definition digit_value :: "string \<Rightarrow> char \<Rightarrow> int option" where
  "digit_value alphabet c =
     map_option int (map_of (zip alphabet [0 ..< length alphabet]) c)"

text \<open>The value of a non-empty run of digits in the given base, \<open>None\<close> if it is not one.\<close>

fun digits_value :: "string \<Rightarrow> int \<Rightarrow> string \<Rightarrow> int option" where
  "digits_value alphabet acc [] = Some acc"
| "digits_value alphabet acc (c # cs) =
     (case digit_value alphabet (toLowerCase_char c) of
        None \<Rightarrow> None
      | Some d \<Rightarrow> digits_value alphabet (acc * int (length alphabet) + d) cs)"

definition base_number :: "string \<Rightarrow> string \<Rightarrow> int option" where
  "base_number alphabet ds = (if ds = [] then None else digits_value alphabet 0 ds)"

definition signed_integer :: "string \<Rightarrow> int option" where
  "signed_integer s =
     (case s of
        [] \<Rightarrow> None
      | c # cs \<Rightarrow>
          if c = CHR ''+'' then base_number ''0123456789'' cs
          else if c = CHR ''-'' then map_option uminus (base_number ''0123456789'' cs)
          else base_number ''0123456789'' s)"

text \<open>\<open>x * 10^e\<close> for an exponent of either sign.\<close>

definition scale10 :: "rat \<Rightarrow> int \<Rightarrow> rat" where
  "scale10 x e = (if 0 \<le> e then x * 10 ^ nat e else x / 10 ^ nat (- e))"

text \<open>
  An unsigned decimal literal: digits with an optional fraction and an optional exponent,
  at least one digit before or after the point.
\<close>

definition unsigned_decimal :: "string \<Rightarrow> rat option" where
  "unsigned_decimal s =
     (let (m, ex) = (takeWhile (\<lambda>c. c \<noteq> CHR ''e'' \<and> c \<noteq> CHR ''E'') s,
                     dropWhile (\<lambda>c. c \<noteq> CHR ''e'' \<and> c \<noteq> CHR ''E'') s);
          e = (if ex = [] then Some 0 else signed_integer (tl ex));
          ip = takeWhile (\<lambda>c. c \<noteq> CHR ''.'') m;
          fp = (case dropWhile (\<lambda>c. c \<noteq> CHR ''.'') m of [] \<Rightarrow> [] | _ # r \<Rightarrow> r)
      in if ip = [] \<and> fp = [] then None
         else case (digits_value ''0123456789'' 0 ip, digits_value ''0123456789'' 0 fp, e) of
                (Some i, Some f, Some k) \<Rightarrow>
                  Some (scale10 (of_int i + of_int f / 10 ^ length fp) k)
              | _ \<Rightarrow> None)"

text \<open>
  \<open>StringToNumber\<close>: surrounding white space is dropped, the empty string is 0, then a
  signed decimal literal, a signed \<open>Infinity\<close>, or an unsigned hexadecimal, octal or binary
  integer; anything else is NaN.
\<close>

definition string_to_number :: "string \<Rightarrow> jsnum" where
  "string_to_number s0 =
     (let s = trim s0;
          non_decimal = (\<lambda>alphabet. case base_number alphabet (drop 2 s) of
                          None \<Rightarrow> NaN | Some n \<Rightarrow> fl (of_int n));
          unsigned = (\<lambda>u neg. if u = ''Infinity'' then (if neg then NegInf else PosInf)
                        else case unsigned_decimal u of
                               None \<Rightarrow> NaN
                             | Some x \<Rightarrow> fl (if neg then - x else x))
      in if s = [] then Fin 0
         else if take 2 s = ''0x'' \<or> take 2 s = ''0X'' then non_decimal ''0123456789abcdef''
         else if take 2 s = ''0o'' \<or> take 2 s = ''0O'' then non_decimal ''01234567''
         else if take 2 s = ''0b'' \<or> take 2 s = ''0B'' then non_decimal ''01''
         else if hd s = CHR ''+'' then unsigned (tl s) False
         else if hd s = CHR ''-'' then unsigned (tl s) True
         else unsigned s False)"

fun to_number :: "jsval \<Rightarrow> jsnum" where
  "to_number VUndefined = NaN"
| "to_number VNull = Fin 0"
| "to_number (VBool b) = Fin (if b then 1 else 0)"
| "to_number (VNum n) = n"
| "to_number (VStr s) = string_to_number s"

subsection \<open>The relational operators\<close>

fun num_lt :: "jsnum \<Rightarrow> jsnum \<Rightarrow> bool" where
  "num_lt NaN _ = False"
| "num_lt _ NaN = False"
| "num_lt PosInf _ = False"
| "num_lt _ NegInf = False"
| "num_lt NegInf _ = True"
| "num_lt _ PosInf = True"
| "num_lt (Fin x) (Fin y) = (x < y)"

text \<open>Strings compare by their code units, a proper prefix first.\<close>

fun str_lt :: "string \<Rightarrow> string \<Rightarrow> bool" where
  "str_lt [] [] = False"
| "str_lt [] (y # ys) = True"
| "str_lt (x # xs) [] = False"
| "str_lt (x # xs) (y # ys) =
     (if x = y then str_lt xs ys else (of_char x :: nat) < of_char y)"

text \<open>\<open>a < b\<close> and \<open>a > b\<close> on primitive values.\<close>

fun js_lt :: "jsval \<Rightarrow> jsval \<Rightarrow> bool" where
  "js_lt (VStr s) (VStr t) = str_lt s t"
| "js_lt a b = num_lt (to_number a) (to_number b)"

definition js_gt :: "jsval \<Rightarrow> jsval \<Rightarrow> bool" where
  "js_gt a b = js_lt b a"

subsection \<open>Sorting an array\<close>

text \<open>
  \<open>Array.prototype.sort(compareFn)\<close> rearranges the array, and orders it where the comparator
  is consistent. What it does with pairs that the comparator does not order consistently (for
  the comparator of \<open>applyFilters\<close>, which never returns 0: equal keys, and every pair it
  answers \<open>-1\<close> for in both directions) is left to the engine. \<open>array_sort\<close> is one such sort,
  insertion from the right end. It stands for the engine's sort where the result does not
  depend on that choice: the elements of the output, and its order by a key for which the
  comparator is a total preorder.
\<close>

fun insert_by :: "('a \<Rightarrow> 'a \<Rightarrow> int) \<Rightarrow> 'a \<Rightarrow> 'a list \<Rightarrow> 'a list" where
  "insert_by cmp x [] = [x]"
| "insert_by cmp x (y # ys) =
     (if cmp x y \<le> 0 then x # y # ys else y # insert_by cmp x ys)"

definition array_sort :: "('a \<Rightarrow> 'a \<Rightarrow> int) \<Rightarrow> 'a list \<Rightarrow> 'a list" where
  "array_sort cmp xs = foldr (insert_by cmp) xs []"

subsection \<open>Sorting by comparisons only\<close>

text \<open>
  Whatever the engine's sort is, it learns about the elements of the array only from the
  answers of the comparator. Such a procedure is a function from these answers, given by
  position, and the length of the array to the positions in their new order.
\<close>

type_synonym comparison_sort = "(nat \<Rightarrow> nat \<Rightarrow> int) \<Rightarrow> nat \<Rightarrow> nat list"

definition answers :: "('a \<Rightarrow> 'a \<Rightarrow> int) \<Rightarrow> 'a list \<Rightarrow> nat \<Rightarrow> nat \<Rightarrow> int" where
  "answers cmp xs i j = (if i < length xs \<and> j < length xs then cmp (xs ! i) (xs ! j) else 0)"

definition sort_with :: "comparison_sort \<Rightarrow> ('a \<Rightarrow> 'a \<Rightarrow> int) \<Rightarrow> 'a list \<Rightarrow> 'a list" where
  "sort_with alg cmp xs = map (\<lambda>i. xs ! i) (alg (answers cmp xs) (length xs))"

text \<open>The procedure rearranges: it returns every position once.\<close>

definition rearranges :: "comparison_sort \<Rightarrow> bool" where
  "rearranges alg = (\<forall>c n. mset (alg c n) = mset [0 ..< n])"

text \<open>The insertion sort above as such a procedure.\<close>

definition insertion_sort :: comparison_sort where
  "insertion_sort c n = array_sort c [0 ..< n]"

section \<open>Data model\<close>

text \<open>A stock record of the summary document.\<close>

record stock =
  symbol :: string
  name :: "string nullable"
  sector :: "string nullable"
  currentPrice :: "rat nullable"
  lastChange :: "rat nullable"
  ytdReturn :: "rat nullable"
  rsi :: "rat nullable"
  macdSignal :: "string nullable"
  aboveMa50 :: "bool nullable"
  aboveMa200 :: "bool nullable"

fun str_val :: "string nullable \<Rightarrow> jsval" where
  "str_val Undefined = VUndefined"
| "str_val Null = VNull"
| "str_val (Val s) = VStr s"

fun num_val :: "rat nullable \<Rightarrow> jsval" where
  "num_val Undefined = VUndefined"
| "num_val Null = VNull"
| "num_val (Val x) = VNum (Fin x)"

fun bool_val :: "bool nullable \<Rightarrow> jsval" where
  "bool_val Undefined = VUndefined"
| "bool_val Null = VNull"
| "bool_val (Val b) = VBool b"

text \<open>\<open>a[field]\<close>: the property of a stock record with the given name.\<close>

definition field_value :: "stock \<Rightarrow> string \<Rightarrow> jsval" where
  "field_value a field =
     (if field = ''symbol'' then VStr (symbol a)
      else if field = ''name'' then str_val (name a)
      else if field = ''sector'' then str_val (sector a)
      else if field = ''currentPrice'' then num_val (currentPrice a)
      else if field = ''lastChange'' then num_val (lastChange a)
      else if field = ''ytdReturn'' then num_val (ytdReturn a)
      else if field = ''rsi'' then num_val (rsi a)
      else if field = ''macdSignal'' then str_val (macdSignal a)
      else if field = ''aboveMa50'' then bool_val (aboveMa50 a)
      else if field = ''aboveMa200'' then bool_val (aboveMa200 a)
      else VUndefined)"

text \<open>\<open>v || ''\<close> for an optional string.\<close>

fun or_empty :: "string nullable \<Rightarrow> string" where
  "or_empty (Val s) = s"
| "or_empty _ = []"

section \<open>Dashboard: filtering and sorting\<close>

text \<open>
  The comparator of \<open>applyFilters\<close>. A string value is lower-cased, then an absent value is
  replaced by \<open>Infinity\<close> when the direction is \<open>asc\<close> and by \<open>-Infinity\<close> otherwise.
\<close>

definition sort_value :: "string nullable \<Rightarrow> jsval \<Rightarrow> jsval" where
  "sort_value dir v =
     (let v1 = (case v of VStr s \<Rightarrow> VStr (toLowerCase s) | _ \<Rightarrow> v)
      in if v1 = VUndefined \<or> v1 = VNull
         then VNum (if dir = Val ''asc'' then PosInf else NegInf)
         else v1)"

definition compare_rows :: "string \<Rightarrow> string nullable \<Rightarrow> stock \<Rightarrow> stock \<Rightarrow> int" where
  "compare_rows field dir a b =
     (let va = sort_value dir (field_value a field);
          vb = sort_value dir (field_value b field)
      in if dir = Val ''asc'' then (if js_gt va vb then 1 else - 1)
         else (if js_lt va vb then 1 else - 1))"

text \<open>\<open>const [field, dir] = sortBy.split('-')\<close>\<close>

definition sort_field :: "string \<Rightarrow> string" where
  "sort_field sortBy = hd (split_dash sortBy)"

definition sort_dir :: "string \<Rightarrow> string nullable" where
  "sort_dir sortBy = (case tl (split_dash sortBy) of [] \<Rightarrow> Undefined | d # _ \<Rightarrow> Val d)"

text \<open>
  The array \<open>filtered\<close> that \<open>applyFilters\<close> hands to \<open>renderStockTable\<close>, from the values of
  the four controls (the search text as typed) and the stocks of the summary.
\<close>

definition filtered_rows ::
    "string \<Rightarrow> string \<Rightarrow> string \<Rightarrow> string \<Rightarrow> stock list \<Rightarrow> stock list" where
  "filtered_rows search_text sector_value signal_value sortBy stocks =
     (let search = toLowerCase search_text;
          f1 = (if search \<noteq> []
                then filter (\<lambda>s. str_includes (toLowerCase (symbol s)) search
                                \<or> str_includes (toLowerCase (or_empty (name s))) search) stocks
                else stocks);
          f2 = (if sector_value \<noteq> [] then filter (\<lambda>s. sector s = Val sector_value) f1 else f1);
          f3 = (if signal_value \<noteq> [] then filter (\<lambda>s. macdSignal s = Val signal_value) f2
                else f2)
      in array_sort (compare_rows (sort_field sortBy) (sort_dir sortBy)) f3)"

subsection \<open>The filter criteria as the specification words them\<close>

text \<open>
  \<open>q\<close> occurs in \<open>s\<close> up to the case of letters: some contiguous part of \<open>s\<close> equals \<open>q\<close> once
  both are lower-cased.
\<close>

definition ci_substring :: "string \<Rightarrow> string \<Rightarrow> bool" where
  "ci_substring q s = (\<exists>t. sublist t s \<and> toLowerCase t = toLowerCase q)"

definition passes_search :: "string \<Rightarrow> stock \<Rightarrow> bool" where
  "passes_search q r = (q = [] \<or> ci_substring q (symbol r) \<or> ci_substring q (or_empty (name r)))"

definition passes_sector :: "string \<Rightarrow> stock \<Rightarrow> bool" where
  "passes_sector c r = (c = [] \<or> sector r = Val c)"

definition passes_signal :: "string \<Rightarrow> stock \<Rightarrow> bool" where
  "passes_signal c r = (c = [] \<or> macdSignal r = Val c)"

subsection \<open>Absent values in the sorted output\<close>

definition absent_value :: "stock \<Rightarrow> string \<Rightarrow> bool" where
  "absent_value a field = (field_value a field = VUndefined \<or> field_value a field = VNull)"

text \<open>No record with a value for the field stands behind a record without one.\<close>

definition nulls_last :: "string \<Rightarrow> stock list \<Rightarrow> bool" where
  "nulls_last field out = sorted_wrt (\<lambda>a b. absent_value a field \<longrightarrow> absent_value b field) out"

definition string_field :: "string \<Rightarrow> bool" where
  "string_field field = (field \<in> set [''symbol'', ''name'', ''sector'', ''macdSignal''])"

text \<open>
  The values a field other than the four string fields can have: absent, a finite number or
  a boolean; and the number the comparator compares for a value.
\<close>

definition has_shape :: "jsval \<Rightarrow> bool" where
  "has_shape v = (v = VUndefined \<or> v = VNull \<or> (\<exists>x. v = VNum (Fin x)) \<or> (\<exists>b. v = VBool b))"

definition sort_number :: "string nullable \<Rightarrow> jsval \<Rightarrow> jsnum" where
  "sort_number dir v = to_number (sort_value dir v)"

section \<open>Documents\<close>

text \<open>The summary document.\<close>

record overview =
  totalStocks :: "rat nullable"
  avgYtdReturn :: "rat nullable"
  medianYtdReturn :: "rat nullable"
  bullishCount :: "rat nullable"
  bearishCount :: "rat nullable"
  aboveMa50Count :: "rat nullable"
  aboveMa200Count :: "rat nullable"
  analysisDate :: "string nullable"

text \<open>The best performer of a sector is a symbol or an object with a \<open>symbol\<close> property.\<close>

datatype best_performer = BestSymbol string | BestObject "string nullable"

record sector_stat =
  stat_count :: "rat nullable"
  avgYtdReturn :: "rat nullable"
  bestPerformer :: "best_performer nullable"

record rankings =
  topGainers :: "stock list nullable"
  topLosers :: "stock list nullable"

record summary =
  marketOverview :: "overview nullable"
  sectorStats :: "(string \<times> sector_stat) list nullable"
  rankings :: "rankings nullable"
  stocks :: "stock list nullable"

text \<open>The per-symbol detail document.\<close>

record bar =
  date :: string
  open_px :: rat
  high :: rat
  low :: rat
  close_px :: rat
  volume :: rat

type_synonym series = "rat nullable list"

record macd_data =
  macd :: "series nullable"
  signal :: "series nullable"
  histogram :: "series nullable"

record bollinger_data =
  upper :: "series nullable"
  middle :: "series nullable"
  lower :: "series nullable"

record indicators =
  dates :: "string list nullable"
  ma5 :: "series nullable"
  ma10 :: "series nullable"
  ma20 :: "series nullable"
  ma50 :: "series nullable"
  ma200 :: "series nullable"
  rsi :: "series nullable"
  macd :: "macd_data nullable"
  bollinger :: "bollinger_data nullable"

record metrics =
  currentPrice :: "rat nullable"
  lastChange :: "rat nullable"
  ytdReturn :: "rat nullable"
  ytdStartPrice :: "rat nullable"
  maxDrawdown :: "rat nullable"
  volatility :: "rat nullable"
  avgVolume :: "rat nullable"
  high52w :: "rat nullable"
  low52w :: "rat nullable"

record technicals =
  rsi :: "rat nullable"
  macdSignal :: "string nullable"
  aboveMa50 :: "bool nullable"
  aboveMa200 :: "bool nullable"

record detail =
  symbol :: string
  name :: "string nullable"
  sector :: "string nullable"
  marketCap :: "rat nullable"
  priceHistory :: "bar list nullable"
  indicators :: "indicators nullable"
  metrics :: "metrics nullable"
  technicals :: "technicals nullable"

section \<open>charts.js: the chart adapter\<close>

text \<open>
  The option objects handed to the charting library, reduced to the data they are built from
  (the fixed styling is left out).
\<close>

record volume_item =
  item_value :: rat
  item_color :: string

record histogram_item =
  bar_value :: "rat nullable"
  bar_color :: string

record ma_line =
  line_name :: string
  line_data :: series
  line_color :: string

datatype chart_option =
    SparklineOption "rat list" string
  | CandlestickOption "string list" "(rat \<times> rat \<times> rat \<times> rat) list" "volume_item list" "ma_line list"
  | RSIOption "string list" series
  | MACDOption "string list" "histogram_item list" "series nullable" "series nullable"
  | BollingerOption "string list" "rat list" "series nullable" "series nullable" "series nullable"

text \<open>The volume bar of a day: the up colour when the close is not below the open.\<close>

definition volume_bar :: "bar \<Rightarrow> volume_item" where
  "volume_bar d =
     \<lparr> item_value = volume d,
       item_color = (if open_px d \<le> close_px d then volumeUp COLORS else volumeDown COLORS) \<rparr>"

text \<open>\<open>v >= 0\<close> for a value of a series: \<open>null\<close> counts as 0, \<open>undefined\<close> as NaN.\<close>

fun ge_zero :: "rat nullable \<Rightarrow> bool" where
  "ge_zero (Val v) = (0 \<le> v)"
| "ge_zero Null = True"
| "ge_zero Undefined = False"

definition histogram_bar :: "rat nullable \<Rightarrow> histogram_item" where
  "histogram_bar v = \<lparr> bar_value = v, bar_color = (if ge_zero v then gain COLORS else loss COLORS) \<rparr>"

text \<open>
  The moving-average overlays of the candlestick chart, from the three configured keys: one
  line for every key the indicator set has.
\<close>

definition ma_lines :: "indicators \<Rightarrow> ma_line list" where
  "ma_lines ind =
     concat (map (\<lambda>(key, nm, col). case key ind of
                    Val d \<Rightarrow> [\<lparr> line_name = nm, line_data = d, line_color = col \<rparr>]
                  | _ \<Rightarrow> [])
       [(ma5, ''MA5'', ma5_color COLORS),
        (ma20, ''MA20'', ma20_color COLORS),
        (ma50, ''MA50'', ma50_color COLORS)])"

section \<open>The document and the charting library\<close>

text \<open>
  Markup written into a container is kept as the data it is built from. A template
  interpolation \<open>${v}\<close> of a value that is not a string is kept as the value. The rows of the
  table come with the ids of the elements that the HTML parser makes of them.
\<close>

datatype piece = Text string | Interp jsval

record card =
  card_label :: string
  card_value :: "piece list"
  card_color :: string

record tile =
  tile_sector :: string
  tile_background :: "piece list"
  tile_color :: string
  tile_percent :: string
  tile_count :: jsval
  tile_best :: jsval

record row =
  row_rank :: nat
  row_symbol :: string
  row_name :: string
  row_sector :: string
  row_price :: string
  row_change :: "string \<times> string"
  row_ytd :: "string \<times> string"
  row_rsi :: "string \<times> string"
  row_signal :: "string \<times> string"
  row_ma50 :: "string \<times> string"
  row_ma200 :: "string \<times> string"

record performer_row =
  performer_symbol :: string
  performer_width :: string
  performer_color :: string
  performer_percent :: string

record metric_card =
  metric_label :: string
  metric_value :: string
  metric_sub :: string
  metric_color :: string

record key_stat =
  stat_label :: string
  stat_value :: "piece list"

datatype markup =
    Static
  | TextContent "piece list"
  | OverviewCards "card list"
  | SectorTiles "tile list"
  | TableRows "row list" "string list"
  | PerformerRows "performer_row list"
  | MetricCards "metric_card list"
  | KeyStats "key_stat list"

text \<open>
  An element with an id. \<open>owner\<close> is the id of the container whose \<open>innerHTML\<close> created the
  element, empty for the markup of the page itself; \<open>attached\<close> is the chart the library has
  attached to the element.
\<close>

record element =
  elem_id :: string
  owner :: string
  content :: markup
  input_value :: string
  attached :: "nat option"

text \<open>
  What a script does to the page, in the order in which it does it: a chart is created, a
  chart is disposed, the markup of an element or of the body is replaced.
\<close>

datatype event = Created nat | Disposed nat | Wrote string | ReplacedBody

text \<open>
  The state of a page: the globals of the dashboard script, the document, the state of the
  charting library (the next handle, the options of each handle, the log of \<open>dispose\<close> calls),
  the \<open>resize\<close> listeners, the callbacks waiting for the next animation frame, and the
  events so far.
\<close>

record page =
  summaryData :: "summary option"
  allStocks :: "detail list"
  sparklineCharts :: "nat list"
  elements :: "element list"
  body_html :: "string option"
  title :: string
  next_instance :: nat
  chart_options :: "(nat \<times> chart_option) list"
  disposed :: "nat list"
  resize_listeners :: "nat list"
  frame_callbacks :: "(stock list \<times> detail list) list"
  events :: "event list"

text \<open>A call returns, or throws; either way it leaves a page.\<close>

datatype 'a result = Done 'a page | Threw error page

definition and_then :: "'a result \<Rightarrow> ('a \<Rightarrow> page \<Rightarrow> 'b result) \<Rightarrow> 'b result" where
  "and_then r f = (case r of Done a p \<Rightarrow> f a p | Threw e p \<Rightarrow> Threw e p)"

text \<open>\<open>document.getElementById(id)\<close>: the first element with the id, if any.\<close>

definition getElementById :: "page \<Rightarrow> string \<Rightarrow> element option" where
  "getElementById p i = find (\<lambda>e. elem_id e = i) (elements p)"

text \<open>The id of the sparkline mount in the row of a symbol: \<open>spark-${s.symbol}\<close>.\<close>

definition spark_id :: "string \<Rightarrow> string" where
  "spark_id sy = ''spark-'' @ sy"

text \<open>
  The elements with an id that a piece of markup brings into the document. Only the rows of
  the table have any; \<open>TableRows\<close> holds, next to the rows, the ids that the parser finds in
  their markup (\<open>mount_ids\<close> below).
\<close>

fun children :: "string \<Rightarrow> markup \<Rightarrow> element list" where
  "children i (TableRows rs ids) =
     map (\<lambda>m. \<lparr> elem_id = m, owner = i, content = Static, input_value = [],
                 attached = None \<rparr>) ids"
| "children i _ = []"

text \<open>
  \<open>el.innerHTML = m\<close> (and \<open>el.textContent = m\<close>) for the first element with id \<open>i\<close>: the
  elements it contained are gone, the ones of the new markup follow it.
\<close>

fun write_inner :: "string \<Rightarrow> markup \<Rightarrow> element list \<Rightarrow> element list" where
  "write_inner i m [] = []"
| "write_inner i m (e # es) =
     (if elem_id e = i
      then e\<lparr>content := m\<rparr> # children i m @ filter (\<lambda>c. owner c \<noteq> i) es
      else e # write_inner i m es)"

definition set_innerHTML :: "string \<Rightarrow> markup \<Rightarrow> page \<Rightarrow> unit result" where
  "set_innerHTML i m p =
     (case getElementById p i of
        None \<Rightarrow> Threw TypeError p
      | Some _ \<Rightarrow>
          Done () (p\<lparr>elements := write_inner i m (elements p), events := events p @ [Wrote i]\<rparr>))"

text \<open>\<open>document.body.innerHTML = message\<close>: the whole page is replaced.\<close>

definition set_body :: "string \<Rightarrow> page \<Rightarrow> page" where
  "set_body message p =
     p\<lparr>elements := [], body_html := Some message, events := events p @ [ReplacedBody]\<rparr>"

text \<open>\<open>el.value\<close> of the element with id \<open>i\<close>; a \<open>TypeError\<close> when there is none.\<close>

definition value_of :: "string \<Rightarrow> page \<Rightarrow> string result" where
  "value_of i p =
     (case getElementById p i of
        None \<Rightarrow> Threw TypeError p
      | Some e \<Rightarrow> Done (input_value e) p)"

subsection \<open>The charting library\<close>

fun attach :: "string \<Rightarrow> nat \<Rightarrow> element list \<Rightarrow> element list" where
  "attach i c [] = []"
| "attach i c (e # es) =
     (if elem_id e = i then e\<lparr>attached := Some c\<rparr> # es else e # attach i c es)"

text \<open>
  \<open>echarts.init(container)\<close>: the chart already attached to the container, or a new one;
  the library rejects a missing container.
\<close>

definition echarts_init :: "string option \<Rightarrow> page \<Rightarrow> nat result" where
  "echarts_init container p =
     (case container of
        None \<Rightarrow> Threw EChartsError p
      | Some i \<Rightarrow>
          (case getElementById p i of
             None \<Rightarrow> Threw EChartsError p
           | Some e \<Rightarrow>
               (case attached e of
                  Some c \<Rightarrow> Done c p
                | None \<Rightarrow>
                    Done (next_instance p)
                      (p\<lparr>elements := attach i (next_instance p) (elements p),
                         next_instance := Suc (next_instance p),
                         events := events p @ [Created (next_instance p)]\<rparr>))))"

text \<open>\<open>chart.setOption(option)\<close>\<close>

definition setOption :: "nat \<Rightarrow> chart_option \<Rightarrow> page \<Rightarrow> page" where
  "setOption c opt p = p\<lparr>chart_options := (c, opt) # filter (\<lambda>(c', _). c' \<noteq> c) (chart_options p)\<rparr>"

text \<open>\<open>chart.dispose()\<close>: the call is logged, the chart leaves its container and its options.\<close>

definition dispose :: "nat \<Rightarrow> page \<Rightarrow> page" where
  "dispose c p =
     p\<lparr>disposed := disposed p @ [c],
       events := events p @ [Disposed c],
       elements := map (\<lambda>e. if attached e = Some c then e\<lparr>attached := None\<rparr> else e) (elements p),
       chart_options := filter (\<lambda>(c', _). c' \<noteq> c) (chart_options p)\<rparr>"

text \<open>\<open>window.addEventListener('resize', () => chart.resize())\<close>\<close>

definition on_resize :: "nat \<Rightarrow> page \<Rightarrow> page" where
  "on_resize c p = p\<lparr>resize_listeners := resize_listeners p @ [c]\<rparr>"

text \<open>The id of a container found by \<open>getElementById\<close>, as the draw functions receive it.\<close>

definition container_of :: "page \<Rightarrow> string \<Rightarrow> string option" where
  "container_of p i = map_option elem_id (getElementById p i)"

subsection \<open>The draw functions\<close>

text \<open>\<open>drawSparkline(container, prices, color)\<close>\<close>

definition drawSparkline :: "string option \<Rightarrow> rat list \<Rightarrow> string \<Rightarrow> page \<Rightarrow> nat result" where
  "drawSparkline container prices color p =
     and_then (echarts_init container p)
       (\<lambda>chart p1. Done chart (setOption chart (SparklineOption prices color) p1))"

text \<open>\<open>drawCandlestickChart(container, data)\<close>\<close>

definition drawCandlestickChart :: "string option \<Rightarrow> detail \<Rightarrow> page \<Rightarrow> nat result" where
  "drawCandlestickChart container data p =
     and_then (echarts_init container p)
       (\<lambda>chart p1.
          case priceHistory data of
            Val ph \<Rightarrow>
              (case indicators data of
                 Val ind \<Rightarrow>
                   Done chart
                     (on_resize chart
                        (setOption chart
                           (CandlestickOption (map date ph)
                              (map (\<lambda>d. (open_px d, close_px d, low d, high d)) ph)
                              (map volume_bar ph) (ma_lines ind)) p1))
               | _ \<Rightarrow> Threw TypeError p1)
          | _ \<Rightarrow> Threw TypeError p1)"

text \<open>\<open>drawRSIChart(container, dates, rsiData)\<close>\<close>

definition drawRSIChart :: "string option \<Rightarrow> string list \<Rightarrow> series \<Rightarrow> page \<Rightarrow> nat result" where
  "drawRSIChart container ds rsiData p =
     and_then (echarts_init container p)
       (\<lambda>chart p1. Done chart (on_resize chart (setOption chart (RSIOption ds rsiData) p1)))"

text \<open>\<open>drawMACDChart(container, dates, macdData)\<close>\<close>

definition drawMACDChart :: "string option \<Rightarrow> string list \<Rightarrow> macd_data \<Rightarrow> page \<Rightarrow> nat result" where
  "drawMACDChart container ds macdData p =
     and_then (echarts_init container p)
       (\<lambda>chart p1.
          case histogram macdData of
            Val hist \<Rightarrow>
              Done chart
                (on_resize chart
                   (setOption chart
                      (MACDOption ds (map histogram_bar hist) (macd_data.macd macdData)
                         (signal macdData)) p1))
          | _ \<Rightarrow> Threw TypeError p1)"

text \<open>\<open>drawBollingerChart(container, dates, closeData, bollinger)\<close>\<close>

definition drawBollingerChart ::
    "string option \<Rightarrow> string list \<Rightarrow> rat list \<Rightarrow> bollinger_data \<Rightarrow> page \<Rightarrow> nat result" where
  "drawBollingerChart container ds closeData bb p =
     and_then (echarts_init container p)
       (\<lambda>chart p1.
          Done chart
            (on_resize chart
               (setOption chart
                  (BollingerOption ds closeData (upper bb) (middle bb) (lower bb)) p1)))"

section \<open>Arithmetic on numbers that may be missing\<close>

text \<open>\<open>ToNumber\<close> and \<open>Math.abs\<close> of a value that is a number, \<open>null\<close> or \<open>undefined\<close>.\<close>

fun num_of :: "rat nullable \<Rightarrow> jsnum" where
  "num_of (Val x) = Fin x"
| "num_of Null = Fin 0"
| "num_of Undefined = NaN"

fun num_abs :: "rat nullable \<Rightarrow> jsnum" where
  "num_abs (Val x) = Fin \<bar>x\<bar>"
| "num_abs Null = Fin 0"
| "num_abs Undefined = NaN"

fun num_sign :: "jsnum \<Rightarrow> int" where
  "num_sign (Fin x) = (if x < 0 then - 1 else if 0 < x then 1 else 0)"
| "num_sign PosInf = 1"
| "num_sign NegInf = - 1"
| "num_sign NaN = 0"

definition inf_of_sign :: "int \<Rightarrow> jsnum" where
  "inf_of_sign s = (if s = 0 then NaN else if 0 < s then PosInf else NegInf)"

text \<open>\<open>a * b\<close> and \<open>a / b\<close>; a zero divisor is the positive zero at every use.\<close>

fun num_times :: "jsnum \<Rightarrow> jsnum \<Rightarrow> jsnum" where
  "num_times NaN _ = NaN"
| "num_times _ NaN = NaN"
| "num_times (Fin x) (Fin y) = fl (x * y)"
| "num_times a b = inf_of_sign (num_sign a * num_sign b)"

fun num_div :: "jsnum \<Rightarrow> jsnum \<Rightarrow> jsnum" where
  "num_div NaN _ = NaN"
| "num_div _ NaN = NaN"
| "num_div (Fin x) (Fin y) = (if y = 0 then inf_of_sign (num_sign (Fin x)) else fl (x / y))"
| "num_div (Fin x) _ = Fin 0"
| "num_div a (Fin y) = inf_of_sign (num_sign a * (if y < 0 then - 1 else 1))"
| "num_div a b = NaN"

text \<open>\<open>Math.min(a, b)\<close> and \<open>Math.max(...xs)\<close>\<close>

definition num_min :: "jsnum \<Rightarrow> jsnum \<Rightarrow> jsnum" where
  "num_min a b = (if a = NaN \<or> b = NaN then NaN else if num_lt b a then b else a)"

definition num_max :: "jsnum \<Rightarrow> jsnum \<Rightarrow> jsnum" where
  "num_max a b = (if a = NaN \<or> b = NaN then NaN else if num_lt a b then b else a)"

definition num_max_list :: "jsnum list \<Rightarrow> jsnum" where
  "num_max_list xs = foldl num_max NegInf xs"

text \<open>\<open>v >= c\<close> and \<open>v <= c\<close> against a number \<open>c\<close>.\<close>

definition ge_num :: "rat nullable \<Rightarrow> rat \<Rightarrow> bool" where
  "ge_num v c = (num_of v \<noteq> NaN \<and> \<not> num_lt (num_of v) (Fin c))"

definition le_num :: "rat nullable \<Rightarrow> rat \<Rightarrow> bool" where
  "le_num v c = (num_of v \<noteq> NaN \<and> \<not> num_lt (Fin c) (num_of v))"

section \<open>Dashboard: loading\<close>

text \<open>
  What fetching and parsing one per-symbol document comes to: the record, or a failure (of
  the request or of the parser).
\<close>

datatype 'a fetched = Loaded 'a | Failed

definition stock_url :: "string \<Rightarrow> string" where
  "stock_url sy = ''data/stocks/'' @ sy @ ''.json''"

text \<open>
  The array that \<open>Promise.all(promises)\<close> resolves to in \<open>loadAllStockData\<close>: one entry for
  every stock of the summary, in the order of the summary; the \<open>catch\<close> of each promise turns
  a failure into \<open>null\<close>.
\<close>

definition stock_promises :: "(string \<Rightarrow> detail fetched) \<Rightarrow> stock list \<Rightarrow> detail option list" where
  "stock_promises fetch ss =
     map (\<lambda>s. case fetch (stock_url (stock.symbol s)) of Loaded data \<Rightarrow> Some data | Failed \<Rightarrow> None) ss"

text \<open>\<open>loadAllStockData()\<close>, with the global \<open>summaryData\<close> as an argument.\<close>

definition loadAllStockData :: "(string \<Rightarrow> detail fetched) \<Rightarrow> summary option \<Rightarrow> detail list" where
  "loadAllStockData fetch sd =
     (case sd of
        None \<Rightarrow> []
      | Some sm \<Rightarrow>
          (case stocks sm of
             Val ss \<Rightarrow> List.map_filter (\<lambda>x. x) (stock_promises fetch ss)
           | _ \<Rightarrow> []))"

section \<open>Dashboard: rendering\<close>

fun collect :: "(error + 'a) list \<Rightarrow> error + 'a list" where
  "collect [] = Inr []"
| "collect (Inl e # _) = Inl e"
| "collect (Inr x # xs) = (case collect xs of Inl e \<Rightarrow> Inl e | Inr ys \<Rightarrow> Inr (x # ys))"

text \<open>\<open>renderOverviewCards(summary)\<close>\<close>

definition overview_cards :: "host \<Rightarrow> overview \<Rightarrow> card list" where
  "overview_cards h ov =
     [\<lparr> card_label = ''Total Stocks'', card_value = [Interp (num_val (totalStocks ov))],
        card_color = ''#f9fafb'' \<rparr>,
      \<lparr> card_label = ''Avg YTD Return'',
        card_value = [Text (formatPercent h (overview.avgYtdReturn ov))],
        card_color = colorForValue (overview.avgYtdReturn ov) \<rparr>,
      \<lparr> card_label = ''Median YTD'', card_value = [Text (formatPercent h (medianYtdReturn ov))],
        card_color = colorForValue (medianYtdReturn ov) \<rparr>,
      \<lparr> card_label = ''Bullish / Bearish'',
        card_value = [Interp (num_val (bullishCount ov)), Text '' / '',
                      Interp (num_val (bearishCount ov))],
        card_color = ''#f9fafb'' \<rparr>,
      \<lparr> card_label = ''Above MA50'',
        card_value = [Interp (num_val (aboveMa50Count ov)), Text '' / '',
                      Interp (num_val (totalStocks ov))],
        card_color = ''#f9fafb'' \<rparr>,
      \<lparr> card_label = ''Above MA200'',
        card_value = [Interp (num_val (aboveMa200Count ov)), Text '' / '',
                      Interp (num_val (totalStocks ov))],
        card_color = ''#f9fafb'' \<rparr>]"

definition renderOverviewCards :: "host \<Rightarrow> summary \<Rightarrow> page \<Rightarrow> unit result" where
  "renderOverviewCards h sm p =
     (case marketOverview sm of
        Val ov \<Rightarrow> set_innerHTML ''overview-cards'' (OverviewCards (overview_cards h ov)) p
      | _ \<Rightarrow> Threw TypeError p)"

text \<open>\<open>renderSectorHeatmap(summary)\<close>\<close>

definition sector_compare :: "string \<times> sector_stat \<Rightarrow> string \<times> sector_stat \<Rightarrow> int" where
  "sector_compare a b =
     (case (num_of (sector_stat.avgYtdReturn (snd b)), num_of (sector_stat.avgYtdReturn (snd a))) of
        (Fin y, Fin x) \<Rightarrow> (if y < x then - 1 else if x < y then 1 else 0)
      | _ \<Rightarrow> 0)"

definition sector_tile :: "host \<Rightarrow> string \<times> sector_stat \<Rightarrow> error + tile" where
  "sector_tile h entry =
     (let pct = sector_stat.avgYtdReturn (snd entry);
          color = (if ge_zero pct then gain COLORS else loss COLORS);
          bgOpacity = num_min (num_times (num_abs pct) (Fin 3)) (Fin (number_literal (4 / 10)));
          bgColor = [Text (if ge_zero pct then ''rgba(34, 197, 94, '' else ''rgba(239, 68, 68, ''),
                     Interp (VNum bgOpacity), Text '')'']
      in case bestPerformer (snd entry) of
           Null \<Rightarrow> Inl TypeError
         | best \<Rightarrow>
             Inr \<lparr> tile_sector = fst entry, tile_background = bgColor, tile_color = color,
                   tile_percent = formatPercent h pct,
                   tile_count = num_val (stat_count (snd entry)),
                   tile_best = (case best of
                                  Val (BestObject s) \<Rightarrow> str_val s
                                | Val (BestSymbol s) \<Rightarrow> VStr s
                                | _ \<Rightarrow> VUndefined) \<rparr>)"

definition renderSectorHeatmap :: "host \<Rightarrow> summary \<Rightarrow> page \<Rightarrow> unit result" where
  "renderSectorHeatmap h sm p =
     (case sectorStats sm of
        Val stats \<Rightarrow>
          (case collect (map (sector_tile h) (array_sort sector_compare stats)) of
             Inl e \<Rightarrow> Threw e p
           | Inr tiles \<Rightarrow> set_innerHTML ''sector-heatmap'' (SectorTiles tiles) p)
      | _ \<Rightarrow> Done () p)"

text \<open>\<open>renderStockTable(stocks, fullData)\<close>\<close>

fun tri_state :: "bool nullable \<Rightarrow> string \<Rightarrow> string \<Rightarrow> string \<Rightarrow> string" where
  "tri_state (Val True) a b c = a"
| "tri_state (Val False) a b c = b"
| "tri_state _ a b c = c"

definition or_dash :: "string nullable \<Rightarrow> string" where
  "or_dash v = (if or_empty v = [] then ''-'' else or_empty v)"

definition table_row :: "host \<Rightarrow> nat \<Rightarrow> stock \<Rightarrow> row" where
  "table_row h idx s =
     \<lparr> row_rank = idx + 1,
       row_symbol = stock.symbol s,
       row_name = or_empty (stock.name s),
       row_sector = or_empty (stock.sector s),
       row_price = formatNumber_default (stock.currentPrice s),
       row_change = (formatPercent h (stock.lastChange s), colorForValue (stock.lastChange s)),
       row_ytd = (formatPercent h (stock.ytdReturn s), colorForValue (stock.ytdReturn s)),
       row_rsi = (case stock.rsi s of Val x \<Rightarrow> toFixed h 1 (Fin x) | _ \<Rightarrow> ''-'',
                  if ge_num (stock.rsi s) 70 then ''rsi-overbought''
                  else if le_num (stock.rsi s) 30 then ''rsi-oversold'' else ''rsi-neutral''),
       row_signal = (or_dash (stock.macdSignal s),
                     if stock.macdSignal s = Val ''bullish'' then ''badge-bullish''
                     else if stock.macdSignal s = Val ''bearish'' then ''badge-bearish''
                     else ''badge-neutral''),
       row_ma50 = (tri_state (stock.aboveMa50 s) ''Above'' ''Below'' ''-'',
                   tri_state (stock.aboveMa50 s) ''ma-above'' ''ma-below'' ''ma-unknown''),
       row_ma200 = (tri_state (stock.aboveMa200 s) ''Above'' ''Below'' ''-'',
                    tri_state (stock.aboveMa200 s) ''ma-above'' ''ma-below'' ''ma-unknown'') \<rparr>"

text \<open>\<open>requestAnimationFrame(callback)\<close>, the callback kept as the two arrays it closes over.\<close>

definition requestAnimationFrame :: "stock list \<times> detail list \<Rightarrow> page \<Rightarrow> page" where
  "requestAnimationFrame cb p = p\<lparr>frame_callbacks := frame_callbacks p @ [cb]\<rparr>"

text \<open>
  The characters that the HTML parser gives a meaning to, in the text of a cell or in a
  quoted attribute value: \<open><\<close>, \<open>&\<close>, the double quote, NUL and the carriage return. A string
  without them reaches the document as it is written into the markup.
\<close>

definition markup_safe :: "string \<Rightarrow> bool" where
  "markup_safe s = list_all (\<lambda>c. c \<notin> set [CHR ''<'', CHR ''&'', CHR 0x22, CHR 0x00, CHR 0x0D]) s"

text \<open>The strings of a stock that its row interpolates as they are.\<close>

definition row_strings :: "stock \<Rightarrow> string list" where
  "row_strings s =
     [stock.symbol s, or_empty (stock.name s), or_empty (stock.sector s), or_dash (stock.macdSignal s)]"

definition rows_safe :: "stock list \<Rightarrow> bool" where
  "rows_safe ss = list_all (\<lambda>s. list_all markup_safe (row_strings s)) ss"

text \<open>
  The ids that the rows bring into the document: the sparkline mount \<open>spark-${s.symbol}\<close> of
  every row when all strings reach the document as written, and whatever the parser makes of
  the markup otherwise.
\<close>

definition mount_ids :: "host \<Rightarrow> stock list \<Rightarrow> string list" where
  "mount_ids h ss =
     (if rows_safe ss then map (\<lambda>s. spark_id (stock.symbol s)) ss
      else parseRows h (map row_strings ss))"

definition renderStockTable :: "host \<Rightarrow> stock list \<Rightarrow> detail list \<Rightarrow> page \<Rightarrow> unit result" where
  "renderStockTable h ss fullData p =
     and_then
       (set_innerHTML ''stock-table-body''
          (TableRows (map (\<lambda>(idx, s). table_row h idx s) (enumerate 0 ss)) (mount_ids h ss)) p)
       (\<lambda>_ p1. Done () (requestAnimationFrame (ss, fullData) p1))"

text \<open>\<open>(s.ytdReturn || 0) >= 0\<close>\<close>

fun or_zero_ge_zero :: "rat nullable \<Rightarrow> bool" where
  "or_zero_ge_zero (Val x) = (0 \<le> x)"
| "or_zero_ge_zero _ = True"

text \<open>
  The callback of \<open>renderStockTable\<close>: for every row whose mount is in the document and
  whose symbol has a detail record with a price history, a sparkline is drawn and its handle
  is pushed onto \<open>sparklineCharts\<close>.
\<close>

fun draw_sparklines :: "stock list \<Rightarrow> detail list \<Rightarrow> page \<Rightarrow> unit result" where
  "draw_sparklines [] fullData p = Done () p"
| "draw_sparklines (s # ss) fullData p =
     (case container_of p (spark_id (stock.symbol s)) of
        None \<Rightarrow> draw_sparklines ss fullData p
      | Some el \<Rightarrow>
          (case find (\<lambda>d. detail.symbol d = stock.symbol s) fullData of
             None \<Rightarrow> draw_sparklines ss fullData p
           | Some stockData \<Rightarrow>
               (case priceHistory stockData of
                  Val ph \<Rightarrow>
                    and_then
                      (drawSparkline (Some el) (map close_px ph)
                         (if or_zero_ge_zero (stock.ytdReturn s) then gain COLORS else loss COLORS) p)
                      (\<lambda>chart p1.
                         draw_sparklines ss fullData
                           (p1\<lparr>sparklineCharts := sparklineCharts p1 @ [chart]\<rparr>))
                | _ \<Rightarrow> draw_sparklines ss fullData p)))"

declare draw_sparklines.simps(2) [simp del]

text \<open>
  An animation frame: the callbacks requested since the last one run in the order of their
  requests; an exception ends the callback it is thrown in.
\<close>

definition run_callback :: "page \<Rightarrow> stock list \<times> detail list \<Rightarrow> page" where
  "run_callback p cb =
     (case draw_sparklines (fst cb) (snd cb) p of Done _ p1 \<Rightarrow> p1 | Threw _ p1 \<Rightarrow> p1)"

definition animation_frame :: "page \<Rightarrow> page" where
  "animation_frame p = foldl run_callback (p\<lparr>frame_callbacks := []\<rparr>) (frame_callbacks p)"

text \<open>\<open>renderPerformers(summary)\<close> and its \<open>renderList\<close>\<close>

definition performer_rows :: "host \<Rightarrow> stock list \<Rightarrow> bool \<Rightarrow> performer_row list" where
  "performer_rows h ss isGainer =
     (let maxAbs = num_max_list (map (\<lambda>s. num_abs (stock.ytdReturn s)) ss)
      in map (\<lambda>s. \<lparr> performer_symbol = stock.symbol s,
                     performer_width =
                       toFixed h 1
                         (num_times (num_div (num_abs (stock.ytdReturn s)) maxAbs) (Fin 100)),
                     performer_color = (if isGainer then gain COLORS else loss COLORS),
                     performer_percent = formatPercent h (stock.ytdReturn s) \<rparr>) ss)"

definition renderList :: "host \<Rightarrow> string \<Rightarrow> stock list nullable \<Rightarrow> bool \<Rightarrow> page \<Rightarrow> unit result" where
  "renderList h containerId perf isGainer p =
     (case perf of
        Val ss \<Rightarrow>
          if ss = [] then Done () p
          else set_innerHTML containerId (PerformerRows (performer_rows h ss isGainer)) p
      | _ \<Rightarrow> Done () p)"

definition renderPerformers :: "host \<Rightarrow> summary \<Rightarrow> page \<Rightarrow> unit result" where
  "renderPerformers h sm p =
     (case summary.rankings sm of
        Val r \<Rightarrow>
          and_then (renderList h ''top-gainers'' (topGainers r) True p)
            (\<lambda>_ p1. renderList h ''top-losers'' (topLosers r) False p1)
      | _ \<Rightarrow> Done () p)"

section \<open>Dashboard: the filter and sort controller\<close>

text \<open>
  \<open>applyFilters()\<close>: the four controls are read, the stocks of the summary are filtered and
  sorted, every chart of the registry is disposed and the registry emptied, and the table is
  rendered.
\<close>

definition dispose_all :: "page \<Rightarrow> page" where
  "dispose_all p = (foldl (\<lambda>q c. dispose c q) p (sparklineCharts p))\<lparr>sparklineCharts := []\<rparr>"

definition applyFilters :: "host \<Rightarrow> page \<Rightarrow> unit result" where
  "applyFilters h p =
     (case summaryData p of
        None \<Rightarrow> Done () p
      | Some sm \<Rightarrow>
          and_then (value_of ''search-input'' p) (\<lambda>search_text p1.
          and_then (value_of ''sector-filter'' p1) (\<lambda>sector_value p2.
          and_then (value_of ''signal-filter'' p2) (\<lambda>signal_value p3.
          and_then (value_of ''sort-by'' p3) (\<lambda>sortBy p4.
            case stocks sm of
              Val ss \<Rightarrow>
                renderStockTable h
                  (filtered_rows search_text sector_value signal_value sortBy ss)
                  (allStocks p4) (dispose_all p4)
            | _ \<Rightarrow> Threw TypeError p4)))))"

section \<open>Detail page\<close>

text \<open>\<open>loadStockData(symbol)\<close>: the document, or \<open>null\<close> after a failure.\<close>

definition loadStockData :: "(string \<Rightarrow> detail fetched) \<Rightarrow> string \<Rightarrow> detail option" where
  "loadStockData fetch sy = (case fetch (stock_url sy) of Loaded data \<Rightarrow> Some data | Failed \<Rightarrow> None)"

text \<open>\<open>renderMetricCards(data)\<close>\<close>

definition metric_cards :: "host \<Rightarrow> metrics \<Rightarrow> technicals \<Rightarrow> metric_card list" where
  "metric_cards h m t =
     [\<lparr> metric_label = ''Price'',
        metric_value = ''$'' @ formatNumber_default (metrics.currentPrice m),
        metric_sub = ''<span style=\"color:'' @ colorForValue (metrics.lastChange m) @ ''\">''
                       @ formatPercent h (metrics.lastChange m) @ ''</span> today'',
        metric_color = ''#f9fafb'' \<rparr>,
      \<lparr> metric_label = ''YTD Return'', metric_value = formatPercent h (metrics.ytdReturn m),
        metric_sub = ''from $'' @ formatNumber_default (ytdStartPrice m),
        metric_color = colorForValue (metrics.ytdReturn m) \<rparr>,
      \<lparr> metric_label = ''RSI (14)'',
        metric_value = (case technicals.rsi t of Val x \<Rightarrow> toFixed h 1 (Fin x) | _ \<Rightarrow> ''-''),
        metric_sub = rsiLabel (technicals.rsi t), metric_color = rsiColor (technicals.rsi t) \<rparr>,
      \<lparr> metric_label = ''MACD Signal'', metric_value = or_dash (technicals.macdSignal t),
        metric_sub = [],
        metric_color = (if technicals.macdSignal t = Val ''bullish'' then gain COLORS
                        else if technicals.macdSignal t = Val ''bearish'' then loss COLORS
                        else text_color COLORS) \<rparr>,
      \<lparr> metric_label = ''Max Drawdown'', metric_value = formatPercent h (maxDrawdown m),
        metric_sub = [], metric_color = loss COLORS \<rparr>,
      \<lparr> metric_label = ''Volatility'', metric_value = formatPercent h (volatility m),
        metric_sub = ''annualized'', metric_color = ''#f9fafb'' \<rparr>,
      \<lparr> metric_label = ''Avg Volume'', metric_value = formatVolume h (avgVolume m),
        metric_sub = [], metric_color = ''#f9fafb'' \<rparr>]"

definition renderMetricCards :: "host \<Rightarrow> detail \<Rightarrow> page \<Rightarrow> unit result" where
  "renderMetricCards h data p =
     (case (detail.metrics data, detail.technicals data) of
        (Val m, Val t) \<Rightarrow> set_innerHTML ''metric-cards'' (MetricCards (metric_cards h m t)) p
      | _ \<Rightarrow> Threw TypeError p)"

text \<open>\<open>renderKeyStats(data)\<close>\<close>

definition key_stats :: "host \<Rightarrow> detail \<Rightarrow> metrics \<Rightarrow> technicals \<Rightarrow> key_stat list" where
  "key_stats h data m t =
     [\<lparr> stat_label = ''Market Cap'', stat_value = [Text (formatMarketCap h (marketCap data))] \<rparr>,
      \<lparr> stat_label = ''52W High'', stat_value = [Text (''$'' @ formatNumber_default (high52w m))] \<rparr>,
      \<lparr> stat_label = ''52W Low'', stat_value = [Text (''$'' @ formatNumber_default (low52w m))] \<rparr>,
      \<lparr> stat_label = ''Above MA50'',
        stat_value = [Text (tri_state (technicals.aboveMa50 t) ''Yes'' ''No'' ''-'')] \<rparr>,
      \<lparr> stat_label = ''Above MA200'',
        stat_value = [Text (tri_state (technicals.aboveMa200 t) ''Yes'' ''No'' ''-'')] \<rparr>,
      \<lparr> stat_label = ''YTD Start'',
        stat_value = [Text (''$'' @ formatNumber_default (ytdStartPrice m))] \<rparr>,
      \<lparr> stat_label = ''Trading Days'',
        stat_value = (case priceHistory data of
                        Val ph \<Rightarrow> [Interp (VNum (Fin (of_nat (length ph))))]
                      | _ \<Rightarrow> [Text ''-'']) \<rparr>,
      \<lparr> stat_label = ''Sector'', stat_value = [Text (or_dash (detail.sector data))] \<rparr>]"

definition renderKeyStats :: "host \<Rightarrow> detail \<Rightarrow> page \<Rightarrow> unit result" where
  "renderKeyStats h data p =
     (case (detail.metrics data, detail.technicals data) of
        (Val m, Val t) \<Rightarrow> set_innerHTML ''key-stats'' (KeyStats (key_stats h data m t)) p
      | _ \<Rightarrow> Threw TypeError p)"

text \<open>
  \<open>data.indicators?.f\<close>: the property \<open>f\<close> of the indicator set, \<open>undefined\<close> when the document
  has no indicator set.
\<close>

definition indicator :: "(indicators \<Rightarrow> 'a nullable) \<Rightarrow> detail \<Rightarrow> 'a nullable" where
  "indicator f data = (case detail.indicators data of Val ind \<Rightarrow> f ind | _ \<Rightarrow> Undefined)"

text \<open>The three optional charts of \<open>init\<close>, each drawn only when its data is there.\<close>

definition draw_rsi :: "string list \<Rightarrow> detail \<Rightarrow> page \<Rightarrow> unit result" where
  "draw_rsi ds data p =
     (case indicator indicators.rsi data of
        Val r \<Rightarrow> and_then (drawRSIChart (container_of p ''rsi-chart'') ds r p) (\<lambda>_ p1. Done () p1)
      | _ \<Rightarrow> Done () p)"

definition draw_macd :: "string list \<Rightarrow> detail \<Rightarrow> page \<Rightarrow> unit result" where
  "draw_macd ds data p =
     (case indicator indicators.macd data of
        Val m \<Rightarrow> and_then (drawMACDChart (container_of p ''macd-chart'') ds m p) (\<lambda>_ p1. Done () p1)
      | _ \<Rightarrow> Done () p)"

definition draw_bollinger :: "string list \<Rightarrow> rat list \<Rightarrow> detail \<Rightarrow> page \<Rightarrow> unit result" where
  "draw_bollinger ds closes data p =
     (case indicator indicators.bollinger data of
        Val b \<Rightarrow>
          and_then (drawBollingerChart (container_of p ''bollinger-chart'') ds closes b p)
            (\<lambda>_ p1. Done () p1)
      | _ \<Rightarrow> Done () p)"

text \<open>
  \<open>init()\<close> of the detail page, from the \<open>symbol\<close> query parameter and what the fetch of the
  document comes to. Of the two messages that replace the body only the sentence is kept,
  not the link back to the dashboard.
\<close>

definition detail_init ::
    "host \<Rightarrow> (string \<Rightarrow> detail fetched) \<Rightarrow> string option \<Rightarrow> page \<Rightarrow> unit result" where
  "detail_init h fetch param p =
     (case param of
        None \<Rightarrow> Done () (set_body ''No symbol specified.'' p)
      | Some sy \<Rightarrow>
          if sy = [] then Done () (set_body ''No symbol specified.'' p)
          else
            let p0 = p\<lparr>title := sy @ '' - Nasdaq 100 Analysis''\<rparr> in
            case loadStockData fetch sy of
              None \<Rightarrow> Done () (set_body (''Failed to load data for '' @ sy @ ''.'') p0)
            | Some data \<Rightarrow>
                and_then
                  (set_innerHTML ''stock-title''
                     (TextContent [Text (detail.symbol data), Text '' - '',
                                   Interp (str_val (detail.name data))]) p0) (\<lambda>_ p1.
                and_then
                  (set_innerHTML ''stock-sector''
                     (TextContent [Text (or_empty (detail.sector data))]) p1) (\<lambda>_ p2.
                and_then (renderMetricCards h data p2) (\<lambda>_ p3.
                  case priceHistory data of
                    Val ph \<Rightarrow>
                      (let ds = (case indicator dates data of Val d \<Rightarrow> d | _ \<Rightarrow> map date ph);
                           closes = map close_px ph
                       in and_then (drawCandlestickChart (container_of p3 ''candlestick-chart'') data p3)
                            (\<lambda>_ p4.
                          and_then (draw_rsi ds data p4) (\<lambda>_ p5.
                          and_then (draw_macd ds data p5) (\<lambda>_ p6.
                          and_then (draw_bollinger ds closes data p6) (\<lambda>_ p7.
                            renderKeyStats h data p7)))))
                  | _ \<Rightarrow> Threw TypeError p3))))"

section \<open>Sample data\<close>

text \<open>A stock record with the given symbol, name, sector, year-to-date return and signal.\<close>

definition stock_of ::
    "string \<Rightarrow> string nullable \<Rightarrow> string nullable \<Rightarrow> rat nullable \<Rightarrow> string nullable \<Rightarrow> stock" where
  "stock_of sy n se y sg =
     \<lparr> stock.symbol = sy, stock.name = n, stock.sector = se, stock.currentPrice = Undefined,
       stock.lastChange = Undefined, stock.ytdReturn = y, stock.rsi = Undefined,
       stock.macdSignal = sg, stock.aboveMa50 = Undefined, stock.aboveMa200 = Undefined \<rparr>"

definition stock_AAA :: stock where
  "stock_AAA = stock_of ''AAA'' Undefined (Val ''Tech'') (Val (1 / 5)) (Val ''bullish'')"

definition stock_BBB :: stock where
  "stock_BBB = stock_of ''BBB'' (Val ''Beta Corp'') (Val ''Health'') (Val (- (1 / 10))) (Val ''bearish'')"

definition stock_CCC :: stock where
  "stock_CCC = stock_of ''CCC'' Null (Val ''Tech'') Null Undefined"

definition flat_bar :: bar where
  "flat_bar = \<lparr> date = ''2024-01-02'', open_px = 10, high = 11, low = 9, close_px = 10, volume = 1000 \<rparr>"

definition up_bar :: bar where
  "up_bar = \<lparr> date = ''2024-01-03'', open_px = 10, high = 12, low = 10, close_px = 12, volume = 1500 \<rparr>"

text \<open>A detail document with a price history and nothing else.\<close>

definition detail_of :: "string \<Rightarrow> bar list nullable \<Rightarrow> detail" where
  "detail_of sy ph =
     \<lparr> detail.symbol = sy, detail.name = Undefined, detail.sector = Undefined,
       marketCap = Undefined, priceHistory = ph, detail.indicators = Undefined,
       detail.metrics = Undefined, detail.technicals = Undefined \<rparr>"

definition summary_of :: "stock list \<Rightarrow> summary" where
  "summary_of ss =
     \<lparr> marketOverview = Undefined, sectorStats = Undefined, summary.rankings = Undefined,
       stocks = Val ss \<rparr>"

text \<open>A server that has the document of \<open>AAA\<close> only.\<close>

definition fetch_AAA_only :: "string \<Rightarrow> detail fetched" where
  "fetch_AAA_only url =
     (if url = ''data/stocks/AAA.json'' then Loaded (detail_of ''AAA'' (Val [flat_bar, up_bar]))
      else Failed)"

text \<open>An element of the page's own markup, and a page that holds such elements only.\<close>

definition element_of :: "string \<Rightarrow> element" where
  "element_of i = \<lparr> elem_id = i, owner = [], content = Static, input_value = [], attached = None \<rparr>"

definition page_of :: "summary option \<Rightarrow> detail list \<Rightarrow> string list \<Rightarrow> page" where
  "page_of sd fullData ids =
     \<lparr> summaryData = sd, allStocks = fullData, sparklineCharts = [],
       elements = map element_of ids, body_html = None, title = [], next_instance = 0,
       chart_options = [], disposed = [], resize_listeners = [], frame_callbacks = [],
       events = [] \<rparr>"

definition dashboard_ids :: "string list" where
  "dashboard_ids =
     [''search-input'', ''sector-filter'', ''signal-filter'', ''sort-by'', ''overview-cards'',
      ''sector-heatmap'', ''top-gainers'', ''top-losers'', ''stock-table-body'']"

definition detail_ids :: "string list" where
  "detail_ids =
     [''stock-title'', ''stock-sector'', ''metric-cards'', ''candlestick-chart'', ''rsi-chart'',
      ''macd-chart'', ''bollinger-chart'', ''key-stats'']"

definition sample_overview :: overview where
  "sample_overview =
     \<lparr> totalStocks = Val 2, overview.avgYtdReturn = Val (1 / 20), medianYtdReturn = Val (1 / 20),
       bullishCount = Val 1, bearishCount = Val 1, aboveMa50Count = Val 1,
       aboveMa200Count = Val 1, analysisDate = Val ''2024-01-03'' \<rparr>"

definition sample_summary :: summary where
  "sample_summary =
     \<lparr> marketOverview = Val sample_overview,
       sectorStats = Val [(''Tech'', \<lparr> stat_count = Val 1, sector_stat.avgYtdReturn = Val (1 / 5),
                                       bestPerformer = Val (BestSymbol ''AAA'') \<rparr>)],
       summary.rankings = Val \<lparr> topGainers = Val [stock_AAA], topLosers = Val [stock_BBB] \<rparr>,
       stocks = Val [stock_AAA, stock_BBB] \<rparr>"

definition sample_metrics :: metrics where
  "sample_metrics =
     \<lparr> metrics.currentPrice = Val 12, metrics.lastChange = Val (1 / 5),
       metrics.ytdReturn = Val (1 / 5), ytdStartPrice = Val 10, maxDrawdown = Val (- (1 / 10)),
       volatility = Val (3 / 10), avgVolume = Val 1250, high52w = Val 12, low52w = Val 9 \<rparr>"

definition sample_technicals :: technicals where
  "sample_technicals =
     \<lparr> technicals.rsi = Val 55, technicals.macdSignal = Val ''bullish'',
       technicals.aboveMa50 = Val True, technicals.aboveMa200 = Null \<rparr>"

text \<open>A detail document with metrics, technicals and a price history, but no indicator set.\<close>

definition detail_without_indicators :: detail where
  "detail_without_indicators =
     (detail_of ''AAA'' (Val [flat_bar, up_bar]))
       \<lparr> detail.metrics := Val sample_metrics, detail.technicals := Val sample_technicals \<rparr>"

text \<open>The same document with an indicator set that has an RSI series and no Bollinger bands.\<close>

definition detail_without_bollinger :: detail where
  "detail_without_bollinger =
     detail_without_indicators
       \<lparr> detail.indicators :=
           Val \<lparr> dates = Undefined, ma5 = Undefined, ma10 = Undefined, ma20 = Undefined,
                 ma50 = Undefined, ma200 = Undefined, indicators.rsi = Val [Null, Val 55],
                 indicators.macd = Undefined, bollinger = Undefined \<rparr> \<rparr>"

definition detail_page :: page where
  "detail_page = page_of None [] detail_ids"

section \<open>The sparkline registry over a run of change events\<close>

text \<open>
  A change event: the user has set the four controls (search text, sector, signal, sort
  order) and the listener calls \<open>applyFilters\<close>; an exception ends the listener. The animation
  frame that follows runs the sparkline callback.
\<close>

type_synonym criteria = "string \<times> string \<times> string \<times> string"

fun set_value :: "string \<Rightarrow> string \<Rightarrow> element list \<Rightarrow> element list" where
  "set_value i v [] = []"
| "set_value i v (e # es) =
     (if elem_id e = i then e\<lparr>input_value := v\<rparr> # es else e # set_value i v es)"

definition set_controls :: "criteria \<Rightarrow> page \<Rightarrow> page" where
  "set_controls ev p =
     (case ev of
        (q, sec, sg, sortBy) \<Rightarrow>
          p\<lparr>elements :=
              set_value ''search-input'' q
                (set_value ''sector-filter'' sec
                   (set_value ''signal-filter'' sg
                      (set_value ''sort-by'' sortBy (elements p))))\<rparr>)"

definition on_change :: "host \<Rightarrow> criteria \<Rightarrow> page \<Rightarrow> page" where
  "on_change h ev p =
     (case applyFilters h (set_controls ev p) of Done _ q \<Rightarrow> q | Threw _ q \<Rightarrow> q)"






definition static_ids :: "page \<Rightarrow> string list" where
  "static_ids p = map elem_id (filter (\<lambda>e. owner e = []) (elements p))"

definition control_ids :: "string list" where
  "control_ids =
     [''search-input'', ''sector-filter'', ''signal-filter'', ''sort-by'', ''stock-table-body'']"

definition distinct_symbols :: "page \<Rightarrow> bool" where
  "distinct_symbols p =
     (case summaryData p of
        None \<Rightarrow> False
      | Some sm \<Rightarrow>
          (case stocks sm of
             Val ss \<Rightarrow> distinct (map stock.symbol ss) \<and> rows_safe ss
           | _ \<Rightarrow> False))"

text \<open>
  A dashboard between two change events: the summary is loaded, its symbols are distinct and
  the strings of its stocks reach the document as written, the controls and the table body
  are part of the page's markup, no callback is waiting,
  every chart created so far is either in the registry or disposed (exactly once), and a
  chart attached to an element is in the registry.
\<close>

definition dashboard_ready :: "page \<Rightarrow> bool" where
  "dashboard_ready p =
     (distinct_symbols p
      \<and> set control_ids \<subseteq> set (static_ids p)
      \<and> frame_callbacks p = []
      \<and> distinct (sparklineCharts p @ disposed p)
      \<and> set (sparklineCharts p @ disposed p) = set [0 ..< next_instance p]
      \<and> set (List.map_filter attached (elements p)) \<subseteq> set (sparklineCharts p))"

definition dashboard_page :: page where
  "dashboard_page =
     page_of (Some (summary_of [stock_BBB, stock_AAA, stock_CCC]))
       [detail_of ''AAA'' (Val [flat_bar, up_bar]), detail_of ''CCC'' Undefined] dashboard_ids"

section \<open>Properties of the formatting functions\<close>

text \<open>\<open>formatNumber(num)\<close> with its default of two decimals never raises.\<close>

lemma formatNumber_two_decimals: "formatNumber v 2 = Inr (formatNumber_default v)"
  by (cases v) (simp_all add: toLocaleString_enUS_def)

text \<open>
  C7. The four formatting examples: \<open>formatPercent(0.1234)\<close> is \<open>"+12.34%"\<close>,
  \<open>formatPercent(-0.05)\<close> is \<open>"-5.00%"\<close>, \<open>formatMarketCap(2.5e12)\<close> is \<open>"$2.50T"\<close> and
  \<open>formatVolume(1500000)\<close> is \<open>"1.50M"\<close>, whatever the host's number-to-string conversions
  are. The arguments are the binary64 values of the literals, and the product and the
  quotients are rounded to binary64 before \<open>toFixed\<close> reads them.
\<close>

theorem C7_formatting_examples:
  "formatPercent h (Val (number_literal (1234 / 10000))) = ''+12.34%''
   \<and> formatPercent h (Val (number_literal (- (5 / 100)))) = ''-5.00%''
   \<and> formatMarketCap h (Val (number_literal 2500000000000)) = ''$2.50T''
   \<and> formatVolume h (Val (number_literal 1500000)) = ''1.50M''"
  by code_simp

text \<open>
  C9. On an absent input (\<open>null\<close> or \<open>undefined\<close>) every formatter returns its placeholder
  and none raises: \<open>formatNumber\<close> (for any number of decimals), \<open>formatPercent\<close>,
  \<open>formatMarketCap\<close> and \<open>formatVolume\<close> return \<open>"-"\<close>, \<open>rsiLabel\<close> returns \<open>"N/A"\<close>, and
  \<open>rsiColor\<close> and \<open>colorForValue\<close> return the neutral text colour \<open>COLORS.text\<close>.
\<close>

theorem C9_absent_input:
  assumes "eq_null v"
  shows "formatNumber v decimals = Inr ''-''
       \<and> formatPercent h v = ''-''
       \<and> formatMarketCap h v = ''-''
       \<and> formatVolume h v = ''-''
       \<and> rsiLabel v = ''N/A''
       \<and> rsiColor v = text_color COLORS
       \<and> colorForValue v = text_color COLORS"
  using assms by (cases v) simp_all

theorem C9_absent_input_witness:
  "eq_null (Null :: rat nullable)
   \<and> formatNumber Null 2 = Inr ''-''
   \<and> formatPercent sample_host Null = ''-''
   \<and> rsiLabel Null = ''N/A''
   \<and> colorForValue Null = ''#6b7280''"
  using C9_absent_input [of Null 2 sample_host]
  by (simp add: COLORS_def)

section \<open>Properties of filtering and sorting\<close>

subsection \<open>The sort is a permutation\<close>

lemma mset_insert_by: "mset (insert_by cmp x ys) = add_mset x (mset ys)"
  by (induction ys) simp_all

lemma mset_array_sort: "mset (array_sort cmp xs) = mset xs"
  unfolding array_sort_def by (induction xs) (simp_all add: mset_insert_by)

lemma set_array_sort: "set (array_sort cmp xs) = set xs"
  using mset_array_sort [of cmp xs] by (metis set_mset_mset)

lemma str_includes_lower:
  "str_includes (toLowerCase s) (toLowerCase q) \<longleftrightarrow> ci_substring q s"
proof
  assume "str_includes (toLowerCase s) (toLowerCase q)"
  then have "sublist (map toLowerCase_char q) (map toLowerCase_char s)"
    by (simp add: str_includes_def toLowerCase_def)
  then obtain t where "sublist t s" "map toLowerCase_char q = map toLowerCase_char t"
    using sublist_map_rightE by blast
  then show "ci_substring q s"
    unfolding ci_substring_def toLowerCase_def by auto
next
  assume "ci_substring q s"
  then obtain t where t: "sublist t s" "toLowerCase t = toLowerCase q"
    unfolding ci_substring_def by blast
  from t(1) have "sublist (toLowerCase t) (toLowerCase s)"
    unfolding toLowerCase_def by (rule map_mono_sublist)
  with t(2) show "str_includes (toLowerCase s) (toLowerCase q)"
    by (simp add: str_includes_def)
qed

lemma toLowerCase_Nil_iff: "toLowerCase q = [] \<longleftrightarrow> q = []"
  by (simp add: toLowerCase_def)

text \<open>
  C1. Filtering is conjunctive. A record \<open>r\<close> is in the filtered output of \<open>applyFilters\<close> if
  and only if it is one of the summary's stocks and passes the case-insensitive substring test
  of the search text against its symbol or its name, and its sector equals the sector
  criterion, and its \<open>macdSignal\<close> equals the signal criterion; an empty criterion lets every
  record pass its test. This holds for every value of the sort control.
\<close>

theorem C1_filter_conjunctive:
  "r \<in> set (filtered_rows q sec sg sortBy ss) \<longleftrightarrow>
     r \<in> set ss \<and> passes_search q r \<and> passes_sector sec r \<and> passes_signal sg r"
  unfolding filtered_rows_def Let_def set_array_sort passes_search_def passes_sector_def
    passes_signal_def
  by (auto simp: toLowerCase_Nil_iff str_includes_lower)

theorem C1_filter_conjunctive_witness:
  "stock_BBB \<in> set (filtered_rows ''bEtA'' ''Health'' ''bearish'' ''ytdReturn-desc'' [stock_AAA, stock_BBB])
   \<and> stock_AAA \<notin> set (filtered_rows ''bEtA'' ''Health'' ''bearish'' ''ytdReturn-desc'' [stock_AAA, stock_BBB])"
proof -
  have b: "passes_search ''bEtA'' stock_BBB"
    unfolding passes_search_def str_includes_lower [symmetric]
    by (simp add: stock_BBB_def stock_of_def str_includes_def toLowerCase_def toLowerCase_char_def
        upper_letters_def lower_letters_def)
  have a: "\<not> passes_sector ''Health'' stock_AAA"
    by (simp add: passes_sector_def stock_AAA_def stock_of_def)
  have c: "passes_sector ''Health'' stock_BBB \<and> passes_signal ''bearish'' stock_BBB"
    by (simp add: passes_sector_def passes_signal_def stock_BBB_def stock_of_def)
  show ?thesis
    using a b c
      C1_filter_conjunctive [of stock_BBB "''bEtA''" "''Health''" "''bearish''" "''ytdReturn-desc''"
        "[stock_AAA, stock_BBB]"]
      C1_filter_conjunctive [of stock_AAA "''bEtA''" "''Health''" "''bearish''" "''ytdReturn-desc''"
        "[stock_AAA, stock_BBB]"]
    by simp
qed

subsection \<open>The sort orders by the comparator\<close>

lemma set_insert_by: "set (insert_by cmp x ys) = insert x (set ys)"
  by (induction ys) auto

lemma sorted_wrt_insert_by:
  assumes tr: "\<And>a b c. cmp a b \<le> 0 \<Longrightarrow> cmp b c \<le> 0 \<Longrightarrow> cmp a c \<le> 0"
      and tot: "\<And>a b. cmp a b \<le> 0 \<or> cmp b a \<le> 0"
      and srt: "sorted_wrt (\<lambda>a b. cmp a b \<le> 0) ys"
  shows "sorted_wrt (\<lambda>a b. cmp a b \<le> 0) (insert_by cmp x ys)"
  using srt
proof (induction ys)
  case Nil
  then show ?case by simp
next
  case (Cons y ys)
  show ?case
  proof (cases "cmp x y \<le> 0")
    case True
    with Cons.prems tr show ?thesis by auto
  next
    case False
    with tot have "cmp y x \<le> 0" by blast
    with False Cons show ?thesis by (auto simp: set_insert_by)
  qed
qed

lemma sorted_wrt_array_sort:
  assumes tr: "\<And>a b c. cmp a b \<le> 0 \<Longrightarrow> cmp b c \<le> 0 \<Longrightarrow> cmp a c \<le> 0"
      and tot: "\<And>a b. cmp a b \<le> 0 \<or> cmp b a \<le> 0"
  shows "sorted_wrt (\<lambda>a b. cmp a b \<le> 0) (array_sort cmp xs)"
  unfolding array_sort_def
proof (induction xs)
  case Nil
  show ?case by simp
next
  case (Cons x xs)
  then show ?case using sorted_wrt_insert_by [of cmp, OF tr tot] by simp
qed

lemma hd_array_sort_le:
  assumes tr: "\<And>a b c. cmp a b \<le> 0 \<Longrightarrow> cmp b c \<le> 0 \<Longrightarrow> cmp a c \<le> 0"
      and tot: "\<And>a b. cmp a b \<le> 0 \<or> cmp b a \<le> 0"
      and mem: "r \<in> set (array_sort cmp xs)"
  shows "cmp (hd (array_sort cmp xs)) r \<le> 0"
proof -
  have s: "sorted_wrt (\<lambda>a b. cmp a b \<le> 0) (array_sort cmp xs)"
    by (rule sorted_wrt_array_sort [OF tr tot])
  from tot have refl: "cmp r r \<le> 0" by blast
  from mem s refl show ?thesis by (cases "array_sort cmp xs") auto
qed

lemma split_ytd_desc:
  "sort_field ''ytdReturn-desc'' = ''ytdReturn'' \<and> sort_dir ''ytdReturn-desc'' = Val ''desc''"
  by (simp add: sort_field_def sort_dir_def)

text \<open>The descending comparator on \<open>ytdReturn\<close> keeps \<open>a\<close> before \<open>b\<close> exactly when \<open>b\<close> has no
  value or a value that is not larger.\<close>

lemma compare_ytd_desc:
  "compare_rows ''ytdReturn'' (Val ''desc'') a b \<le> 0 \<longleftrightarrow>
     (case stock.ytdReturn b of Val y \<Rightarrow> (case stock.ytdReturn a of Val x \<Rightarrow> y \<le> x | _ \<Rightarrow> False) | _ \<Rightarrow> True)"
  by (cases "stock.ytdReturn a"; cases "stock.ytdReturn b")
     (auto simp: compare_rows_def field_value_def sort_value_def Let_def)

text \<open>
  C3. With \<open>sortBy = "ytdReturn-desc"\<close> the first record of the output has the maximum
  \<open>ytdReturn\<close> of the filtered records: whenever a record of the output has a return \<open>x\<close>, the
  first record has a return too, and it is at least \<open>x\<close>.
\<close>

theorem C3_first_is_max:
  assumes out: "out = filtered_rows q sec sg ''ytdReturn-desc'' ss"
      and mem: "r \<in> set out"
      and val: "stock.ytdReturn r = Val x"
  shows "\<exists>y. stock.ytdReturn (hd out) = Val y \<and> x \<le> y"
proof -
  let ?cmp = "compare_rows ''ytdReturn'' (Val ''desc'')"
  have tr: "\<And>a b c. ?cmp a b \<le> 0 \<Longrightarrow> ?cmp b c \<le> 0 \<Longrightarrow> ?cmp a c \<le> 0"
    unfolding compare_ytd_desc by (auto split: nullable.splits)
  have tot: "\<And>a b. ?cmp a b \<le> 0 \<or> ?cmp b a \<le> 0"
    unfolding compare_ytd_desc by (auto split: nullable.splits)
  from out obtain xs where o: "out = array_sort ?cmp xs"
    unfolding filtered_rows_def Let_def using split_ytd_desc by auto
  have "?cmp (hd (array_sort ?cmp xs)) r \<le> 0"
  proof (rule hd_array_sort_le [where cmp = "compare_rows ''ytdReturn'' (Val ''desc'')"])
    show "\<And>a b c. ?cmp a b \<le> 0 \<Longrightarrow> ?cmp b c \<le> 0 \<Longrightarrow> ?cmp a c \<le> 0" by (rule tr)
    show "\<And>a b. ?cmp a b \<le> 0 \<or> ?cmp b a \<le> 0" by (rule tot)
    show "r \<in> set (array_sort ?cmp xs)" using mem o by simp
  qed
  then have "?cmp (hd out) r \<le> 0" using o by simp
  with val show ?thesis
    unfolding compare_ytd_desc by (auto split: nullable.splits)
qed

theorem C3_first_is_max_witness:
  "stock_BBB \<in> set (filtered_rows [] [] [] ''ytdReturn-desc'' [stock_CCC, stock_BBB, stock_AAA])
   \<and> stock.ytdReturn stock_BBB = Val (- (1 / 10))
   \<and> (\<exists>y. stock.ytdReturn (hd (filtered_rows [] [] [] ''ytdReturn-desc'' [stock_CCC, stock_BBB, stock_AAA])) = Val y
            \<and> - (1 / 10) \<le> y)"
proof -
  have m: "stock_BBB \<in> set (filtered_rows [] [] [] ''ytdReturn-desc'' [stock_CCC, stock_BBB, stock_AAA])"
    unfolding filtered_rows_def Let_def set_array_sort by (simp add: toLowerCase_def)
  have v: "stock.ytdReturn stock_BBB = Val (- (1 / 10))"
    by (simp add: stock_BBB_def stock_of_def)
  from m v C3_first_is_max [OF refl m v] show ?thesis by simp
qed

subsection \<open>Absent values under the comparator\<close>

text \<open>
  For a field whose values are numbers or booleans the replacement of an absent value by an
  infinity makes the comparator a total preorder, and the records without a value end up
  last, in both directions.
\<close>

lemma num_lt_trans_neg:
  "a \<noteq> NaN \<Longrightarrow> b \<noteq> NaN \<Longrightarrow> c \<noteq> NaN \<Longrightarrow> \<not> num_lt b a \<Longrightarrow> \<not> num_lt c b \<Longrightarrow> \<not> num_lt c a"
  by (cases a; cases b; cases c) auto

lemma num_lt_total_neg: "\<not> num_lt b a \<or> \<not> num_lt a b"
  by (cases a; cases b) auto

lemma num_val_shape: "has_shape (num_val v)"
  by (cases v) (simp_all add: has_shape_def)

lemma bool_val_shape: "has_shape (bool_val v)"
  by (cases v) (simp_all add: has_shape_def)

lemma field_value_shape: "\<not> string_field field \<Longrightarrow> has_shape (field_value a field)"
  unfolding field_value_def string_field_def
  by (simp add: num_val_shape bool_val_shape) (simp add: has_shape_def)

lemma sort_number_shape:
  assumes "has_shape v"
  shows "sort_number dir v \<noteq> NaN"
    and "(v = VUndefined \<or> v = VNull) \<Longrightarrow>
           sort_number dir v = (if dir = Val ''asc'' then PosInf else NegInf)"
    and "\<not> (v = VUndefined \<or> v = VNull) \<Longrightarrow> \<exists>x. sort_number dir v = Fin x"
  using assms by (auto simp: has_shape_def sort_number_def sort_value_def)

lemma js_lt_shape:
  "has_shape v \<Longrightarrow> has_shape w \<Longrightarrow>
     js_lt (sort_value dir v) (sort_value dir w) = num_lt (sort_number dir v) (sort_number dir w)"
  by (auto simp: has_shape_def sort_number_def sort_value_def)

lemma compare_rows_numeric:
  assumes "\<not> string_field field"
  shows "compare_rows field dir a b \<le> 0 \<longleftrightarrow>
           (if dir = Val ''asc''
            then \<not> num_lt (sort_number dir (field_value b field)) (sort_number dir (field_value a field))
            else \<not> num_lt (sort_number dir (field_value a field)) (sort_number dir (field_value b field)))"
  using field_value_shape [OF assms, of a] field_value_shape [OF assms, of b]
  by (simp add: compare_rows_def Let_def js_gt_def js_lt_shape)

lemma compare_rows_numeric_trans:
  assumes nf: "\<not> string_field field"
      and ab: "compare_rows field dir a b \<le> 0" and bc: "compare_rows field dir b c \<le> 0"
  shows "compare_rows field dir a c \<le> 0"
proof -
  let ?K = "\<lambda>a. sort_number dir (field_value a field)"
  have nn: "?K a \<noteq> NaN" "?K b \<noteq> NaN" "?K c \<noteq> NaN"
    using field_value_shape [OF nf] sort_number_shape(1) by blast+
  show ?thesis
  proof (cases "dir = Val ''asc''")
    case True
    from ab bc have "\<not> num_lt (?K b) (?K a)" "\<not> num_lt (?K c) (?K b)"
      by (simp_all add: compare_rows_numeric [OF nf] True)
    then have "\<not> num_lt (?K c) (?K a)"
      by (rule num_lt_trans_neg [OF nn])
    then show ?thesis by (simp add: compare_rows_numeric [OF nf] True)
  next
    case False
    from ab bc have "\<not> num_lt (?K b) (?K c)" "\<not> num_lt (?K a) (?K b)"
      by (simp_all add: compare_rows_numeric [OF nf] False)
    then have "\<not> num_lt (?K a) (?K c)"
      by (rule num_lt_trans_neg [OF nn(3) nn(2) nn(1)])
    then show ?thesis by (simp add: compare_rows_numeric [OF nf] False)
  qed
qed

lemma compare_rows_numeric_total:
  assumes nf: "\<not> string_field field"
  shows "compare_rows field dir a b \<le> 0 \<or> compare_rows field dir b a \<le> 0"
  using num_lt_total_neg [of "sort_number dir (field_value a field)" "sort_number dir (field_value b field)"]
  by (cases "dir = Val ''asc''") (auto simp add: compare_rows_numeric [OF nf])

lemma compare_rows_numeric_absent:
  assumes nf: "\<not> string_field field"
      and ab: "compare_rows field dir a b \<le> 0"
      and aa: "absent_value a field"
  shows "absent_value b field"
proof (rule ccontr)
  let ?K = "\<lambda>a. sort_number dir (field_value a field)"
  assume nb: "\<not> absent_value b field"
  from aa have ka: "?K a = (if dir = Val ''asc'' then PosInf else NegInf)"
    using sort_number_shape(2) [OF field_value_shape [OF nf, of a]]
    by (simp add: absent_value_def)
  from nb obtain x where kb: "?K b = Fin x"
    using sort_number_shape(3) [OF field_value_shape [OF nf, of b]]
    by (auto simp: absent_value_def)
  from ab ka kb show False
    by (cases "dir = Val ''asc''") (simp_all add: compare_rows_numeric [OF nf])
qed

lemma nulls_last_numeric:
  assumes nf: "\<not> string_field (sort_field sortBy)"
  shows "nulls_last (sort_field sortBy) (filtered_rows q sec sg sortBy ss)"
proof -
  define cmp where "cmp = compare_rows (sort_field sortBy) (sort_dir sortBy)"
  have s: "sorted_wrt (\<lambda>a b. cmp a b \<le> 0) (array_sort cmp xs)" for xs
  proof (rule sorted_wrt_array_sort)
    show "\<And>a b c. cmp a b \<le> 0 \<Longrightarrow> cmp b c \<le> 0 \<Longrightarrow> cmp a c \<le> 0"
      unfolding cmp_def by (rule compare_rows_numeric_trans [OF nf])
    show "\<And>a b. cmp a b \<le> 0 \<or> cmp b a \<le> 0"
      unfolding cmp_def by (rule compare_rows_numeric_total [OF nf])
  qed
  have "sorted_wrt (\<lambda>a b. absent_value a (sort_field sortBy) \<longrightarrow> absent_value b (sort_field sortBy))
          (array_sort cmp xs)" for xs
  proof (rule sorted_wrt_mono_rel [OF _ s])
    fix a b
    assume "cmp a b \<le> 0"
    then show "absent_value a (sort_field sortBy) \<longrightarrow> absent_value b (sort_field sortBy)"
      unfolding cmp_def using compare_rows_numeric_absent [OF nf] by blast
  qed
  then show ?thesis
    unfolding nulls_last_def filtered_rows_def Let_def cmp_def by simp
qed

subsection \<open>Absent names under the comparator\<close>

text \<open>
  Against a string the infinity that replaces an absent value decides nothing: the string
  converts to NaN, \<open>>\<close> and \<open><\<close> are both false, and the comparator answers \<open>-1\<close> whichever way
  round the two records are given, as it does for a record and itself.
\<close>

lemma str_lt_irrefl: "\<not> str_lt s s"
  by (induction s) simp_all

lemma compare_rows_absent_text:
  assumes a: "absent_value a ''name''"
      and b: "stock.name b = Val s" and nan: "string_to_number (toLowerCase s) = NaN"
  shows "compare_rows ''name'' dir a b = - 1" and "compare_rows ''name'' dir b a = - 1"
    and "compare_rows ''name'' dir a a = - 1" and "compare_rows ''name'' dir b b = - 1"
proof -
  from a have fa: "field_value a ''name'' = VUndefined \<or> field_value a ''name'' = VNull"
    by (simp add: absent_value_def)
  from b have fb: "field_value b ''name'' = VStr s"
    by (simp add: field_value_def)
  from fa have sa: "sort_value dir (field_value a ''name'')
                      = VNum (if dir = Val ''asc'' then PosInf else NegInf)"
    by (auto simp: sort_value_def)
  have sb: "sort_value dir (field_value b ''name'') = VStr (toLowerCase s)"
    by (simp add: fb sort_value_def)
  show "compare_rows ''name'' dir a b = - 1"
    unfolding compare_rows_def Let_def sa sb by (simp add: js_gt_def nan)
  show "compare_rows ''name'' dir b a = - 1"
    unfolding compare_rows_def Let_def sa sb by (simp add: js_gt_def nan)
  show "compare_rows ''name'' dir a a = - 1"
    unfolding compare_rows_def Let_def sa by (simp add: js_gt_def)
  show "compare_rows ''name'' dir b b = - 1"
    unfolding compare_rows_def Let_def sb by (simp add: js_gt_def str_lt_irrefl)
qed

lemma two_positions:
  assumes "mset xs = mset [0, Suc 0]"
  shows "xs = [0, Suc 0] \<or> xs = [Suc 0, 0]"
proof -
  from assms have "length xs = length [0::nat, Suc 0]" by (rule mset_eq_length)
  then obtain x y where xy: "xs = [x, y]"
    by (cases xs; cases "tl xs") auto
  from assms show ?thesis
    unfolding xy by (auto simp: add_eq_conv_diff)
qed

lemma sort_with_elements:
  assumes "rearranges alg"
  shows "mset (sort_with alg cmp xs) = mset xs"
proof -
  from assms have "mset (alg (answers cmp xs) (length xs)) = mset [0 ..< length xs]"
    by (simp add: rearranges_def)
  then have "mset (map (\<lambda>i. xs ! i) (alg (answers cmp xs) (length xs)))
               = mset (map (\<lambda>i. xs ! i) [0 ..< length xs])"
    by (metis mset_map)
  then show ?thesis by (simp add: sort_with_def map_nth)
qed

lemma insertion_sort_rearranges: "rearranges insertion_sort"
  unfolding rearranges_def insertion_sort_def by (simp only: mset_array_sort) simp

text \<open>
  C2. Records without a value for the sort field are to stand behind all records with one,
  in both directions. Sorted by \<open>name\<close> they do not: for a record \<open>a\<close> without a name and a
  record \<open>b\<close> whose name is no number, the comparator of \<open>applyFilters\<close> answers \<open>-1\<close> for
  \<open>(a, b)\<close> and for \<open>(b, a)\<close>, in either direction. The arrays \<open>[a, b]\<close> and \<open>[b, a]\<close> therefore
  give a sort the same answers, and no procedure that rearranges an array by the answers of
  the comparator puts \<open>a\<close> last in both.
\<close>

theorem C2_absent_names_not_sorted_last:
  assumes alg: "rearranges alg"
      and a: "absent_value a ''name''"
      and b: "stock.name b = Val s" and nan: "string_to_number (toLowerCase s) = NaN"
  shows "compare_rows ''name'' dir a b = - 1 \<and> compare_rows ''name'' dir b a = - 1
       \<and> \<not> (nulls_last ''name'' (sort_with alg (compare_rows ''name'' dir) [a, b])
              \<and> nulls_last ''name'' (sort_with alg (compare_rows ''name'' dir) [b, a]))"
proof -
  note c = compare_rows_absent_text [OF a b nan, of dir]
  have nb: "\<not> absent_value b ''name''"
    using b by (simp add: absent_value_def field_value_def)
  have eq: "answers (compare_rows ''name'' dir) [a, b] = answers (compare_rows ''name'' dir) [b, a]"
  proof (intro ext)
    fix i j
    show "answers (compare_rows ''name'' dir) [a, b] i j = answers (compare_rows ''name'' dir) [b, a] i j"
      using c by (cases i; cases j) (auto simp: answers_def nth_Cons split: nat.splits)
  qed
  define pi where "pi = alg (answers (compare_rows ''name'' dir) [a, b]) (Suc (Suc 0))"
  have sa: "sort_with alg (compare_rows ''name'' dir) [a, b] = map (\<lambda>i. [a, b] ! i) pi"
    by (simp add: sort_with_def pi_def)
  have sb: "sort_with alg (compare_rows ''name'' dir) [b, a] = map (\<lambda>i. [b, a] ! i) pi"
    by (simp add: sort_with_def pi_def eq)
  have u: "[0 ..< Suc (Suc 0)] = [0, Suc 0]" by simp
  from alg have "mset pi = mset [0 ..< Suc (Suc 0)]"
    unfolding rearranges_def pi_def by blast
  then have "mset pi = mset [0, Suc 0]"
    by (simp only: u)
  then have "pi = [0, Suc 0] \<or> pi = [Suc 0, 0]" by (rule two_positions)
  then have "\<not> (nulls_last ''name'' (sort_with alg (compare_rows ''name'' dir) [a, b])
              \<and> nulls_last ''name'' (sort_with alg (compare_rows ''name'' dir) [b, a]))"
    unfolding sa sb using a nb by (auto simp: nulls_last_def)
  with c show ?thesis by simp
qed

theorem C2_absent_names_not_sorted_last_witness:
  "rearranges insertion_sort
   \<and> absent_value stock_AAA ''name''
   \<and> stock.name stock_BBB = Val ''Beta Corp''
   \<and> string_to_number (toLowerCase ''Beta Corp'') = NaN
   \<and> compare_rows ''name'' (Val ''asc'') stock_AAA stock_BBB = - 1
   \<and> compare_rows ''name'' (Val ''asc'') stock_BBB stock_AAA = - 1
   \<and> \<not> (nulls_last ''name'' (sort_with insertion_sort (compare_rows ''name'' (Val ''asc'')) [stock_AAA, stock_BBB])
          \<and> nulls_last ''name'' (sort_with insertion_sort (compare_rows ''name'' (Val ''asc'')) [stock_BBB, stock_AAA]))"
proof -
  have a: "absent_value stock_AAA ''name''"
    by (simp add: absent_value_def field_value_def stock_AAA_def stock_of_def)
  have b: "stock.name stock_BBB = Val ''Beta Corp''"
    by (simp add: stock_BBB_def stock_of_def)
  have n: "string_to_number (toLowerCase ''Beta Corp'') = NaN" by code_simp
  from insertion_sort_rearranges a b n
    C2_absent_names_not_sorted_last [OF insertion_sort_rearranges a b n, of "Val ''asc''"]
  show ?thesis by blast
qed

section \<open>Zero counts as a gain\<close>

text \<open>
  C10. Zero is classified as a gain: \<open>formatPercent(0)\<close> is \<open>"+0.00%"\<close> with the plus sign,
  \<open>colorForValue(0)\<close> is the gain colour, and the volume bar of a day whose close equals its
  open has the up colour.
\<close>

theorem C10_zero_is_gain:
  assumes "close_px d = open_px d"
  shows "formatPercent h (Val 0) = ''+0.00%''
       \<and> colorForValue (Val 0) = gain COLORS
       \<and> item_color (volume_bar d) = volumeUp COLORS"
proof -
  have "formatPercent h (Val 0) = ''+0.00%''" by code_simp
  moreover have "colorForValue (Val 0) = gain COLORS" by simp
  moreover have "item_color (volume_bar d) = volumeUp COLORS"
    using assms by (simp add: volume_bar_def)
  ultimately show ?thesis by simp
qed

theorem C10_zero_is_gain_witness:
  "close_px flat_bar = open_px flat_bar
   \<and> formatPercent sample_host (Val 0) = ''+0.00%''
   \<and> colorForValue (Val 0) = ''#22c55e''
   \<and> item_color (volume_bar flat_bar) = ''rgba(34, 197, 94, 0.4)''"
proof -
  have e: "close_px flat_bar = open_px flat_bar" by (simp add: flat_bar_def)
  from e C10_zero_is_gain [OF e, of sample_host] show ?thesis by (simp add: COLORS_def)
qed

section \<open>Loading the per-symbol documents\<close>

text \<open>The loaded records come in the order of the summary's stocks.\<close>

lemma loadAllStockData_in_order:
  "loadAllStockData fetch (Some sm) =
     (case stocks sm of
        Val ss \<Rightarrow> [d. Loaded d \<leftarrow> map (\<lambda>s. fetch (stock_url (stock.symbol s))) ss]
      | _ \<Rightarrow> [])"
proof (cases "stocks sm")
  case (Val ss)
  have "List.map_filter (\<lambda>x. x) (stock_promises fetch ss)
          = [d. Loaded d \<leftarrow> map (\<lambda>s. fetch (stock_url (stock.symbol s))) ss]"
    unfolding stock_promises_def
    by (induction ss) (auto split: fetched.splits)
  with Val show ?thesis by (simp add: loadAllStockData_def)
qed (simp_all add: loadAllStockData_def)

text \<open>
  C8. \<open>loadAllStockData\<close> settles every request on its own: the array of settled requests has
  one entry for each stock of the summary, the record where the fetch succeeded and the absent
  placeholder where it failed, whatever the other fetches did; and the function returns exactly
  the successfully loaded records (as a multiset: no order is promised).
\<close>

theorem C8_load_all:
  assumes "stocks sm = Val ss"
  shows "length (stock_promises fetch ss) = length ss
       \<and> (\<forall>i < length ss.
             stock_promises fetch ss ! i =
               (case fetch (stock_url (stock.symbol (ss ! i))) of
                  Loaded data \<Rightarrow> Some data | Failed \<Rightarrow> None))
       \<and> mset (loadAllStockData fetch (Some sm))
           = mset [d. Loaded d \<leftarrow> map (\<lambda>s. fetch (stock_url (stock.symbol s))) ss]"
  using assms loadAllStockData_in_order [of fetch sm]
  by (simp add: stock_promises_def)

theorem C8_load_all_witness:
  "stocks (summary_of [stock_BBB, stock_AAA]) = Val [stock_BBB, stock_AAA]
   \<and> stock_promises fetch_AAA_only [stock_BBB, stock_AAA]
       = [None, Some (detail_of ''AAA'' (Val [flat_bar, up_bar]))]
   \<and> mset (loadAllStockData fetch_AAA_only (Some (summary_of [stock_BBB, stock_AAA])))
       = {# detail_of ''AAA'' (Val [flat_bar, up_bar]) #}"
proof -
  have s: "stocks (summary_of [stock_BBB, stock_AAA]) = Val [stock_BBB, stock_AAA]"
    by (simp add: summary_of_def)
  have p: "stock_promises fetch_AAA_only [stock_BBB, stock_AAA]
       = [None, Some (detail_of ''AAA'' (Val [flat_bar, up_bar]))]"
    by (simp add: stock_promises_def fetch_AAA_only_def stock_url_def stock_AAA_def stock_BBB_def
        stock_of_def)
  from s p C8_load_all [OF s, of fetch_AAA_only] show ?thesis
    by (simp add: fetch_AAA_only_def stock_url_def stock_AAA_def stock_BBB_def stock_of_def)
qed

section \<open>Renderers and missing containers\<close>

lemma collect_sector_tiles_error:
  "collect (map (sector_tile h) xs) = Inl e \<Longrightarrow> e = TypeError"
proof (induction xs)
  case Nil
  then show ?case by simp
next
  case (Cons x xs)
  show ?case
  proof (cases "sector_tile h x")
    case (Inl e')
    then have "e' = TypeError"
      by (auto simp: sector_tile_def Let_def split: nullable.splits)
    with Inl Cons.prems show ?thesis by simp
  next
    case (Inr t)
    with Cons show ?thesis by (auto split: sum.splits)
  qed
qed

lemma set_innerHTML_absent:
  "getElementById p i = None \<Longrightarrow> set_innerHTML i m p = Threw TypeError p"
  by (simp add: set_innerHTML_def)

lemma renderList_absent:
  assumes "getElementById p c = None"
  shows "renderList h c perf g p =
           (case perf of Val (s # ss) \<Rightarrow> Threw TypeError p | _ \<Rightarrow> Done () p)"
  using assms
  by (auto simp: renderList_def set_innerHTML_absent split: nullable.splits list.splits)

text \<open>
  C5, as the specification has it: a renderer whose container is missing does nothing and
  raises no error. It fails for \<open>renderOverviewCards\<close>: without the element \<open>overview-cards\<close>
  the assignment to \<open>container.innerHTML\<close> raises a \<open>TypeError\<close>.
\<close>

theorem C5_renderer_without_container_throws:
  "getElementById (page_of None [] []) ''overview-cards'' = None
   \<and> renderOverviewCards sample_host sample_summary (page_of None [] [])
       = Threw TypeError (page_of None [] [])"
  by (simp add: getElementById_def page_of_def renderOverviewCards_def sample_summary_def
      set_innerHTML_def)

text \<open>
  C5, amended. When its container is missing, a renderer leaves the page as it is. It
  returns without an error only when it has nothing to render: \<open>renderSectorHeatmap\<close> when
  the summary has no \<open>sectorStats\<close>, a performer list when the list is absent or empty. In
  every other case it raises a \<open>TypeError\<close>; \<open>renderOverviewCards\<close> and \<open>renderStockTable\<close>
  always do, and the table then requests no sparkline callback.
\<close>

theorem C5_absent_container:
  "(getElementById p ''overview-cards'' = None \<longrightarrow>
      renderOverviewCards h sm p = Threw TypeError p)
   \<and> (getElementById p ''sector-heatmap'' = None \<longrightarrow>
      renderSectorHeatmap h sm p =
        (case sectorStats sm of Val stats \<Rightarrow> Threw TypeError p | _ \<Rightarrow> Done () p))
   \<and> (getElementById p ''stock-table-body'' = None \<longrightarrow>
      renderStockTable h ss fullData p = Threw TypeError p)
   \<and> (getElementById p c = None \<longrightarrow>
      renderList h c perf g p =
        (case perf of Val (s # ss) \<Rightarrow> Threw TypeError p | _ \<Rightarrow> Done () p))"
proof (intro conjI impI)
  assume "getElementById p ''overview-cards'' = None"
  then show "renderOverviewCards h sm p = Threw TypeError p"
    by (simp add: renderOverviewCards_def set_innerHTML_absent split: nullable.splits)
next
  assume a: "getElementById p ''sector-heatmap'' = None"
  show "renderSectorHeatmap h sm p =
          (case sectorStats sm of Val stats \<Rightarrow> Threw TypeError p | _ \<Rightarrow> Done () p)"
  proof (cases "sectorStats sm")
    case (Val stats)
    show ?thesis
    proof (cases "collect (map (sector_tile h) (array_sort sector_compare stats))")
      case (Inl e)
      with collect_sector_tiles_error [OF Inl] Val show ?thesis
        by (simp add: renderSectorHeatmap_def)
    next
      case (Inr tiles)
      with Val a show ?thesis
        by (simp add: renderSectorHeatmap_def set_innerHTML_absent)
    qed
  qed (simp_all add: renderSectorHeatmap_def)
next
  assume "getElementById p ''stock-table-body'' = None"
  then show "renderStockTable h ss fullData p = Threw TypeError p"
    by (simp add: renderStockTable_def set_innerHTML_absent and_then_def)
next
  assume "getElementById p c = None"
  then show "renderList h c perf g p =
               (case perf of Val (s # ss) \<Rightarrow> Threw TypeError p | _ \<Rightarrow> Done () p)"
    by (rule renderList_absent)
qed

theorem C5_absent_container_witness:
  "getElementById (page_of None [] []) ''overview-cards'' = None
   \<and> getElementById (page_of None [] []) ''sector-heatmap'' = None
   \<and> getElementById (page_of None [] []) ''stock-table-body'' = None
   \<and> getElementById (page_of None [] []) ''top-gainers'' = None
   \<and> renderOverviewCards sample_host (summary_of []) (page_of None [] [])
        = Threw TypeError (page_of None [] [])
   \<and> renderSectorHeatmap sample_host (summary_of []) (page_of None [] [])
        = Done () (page_of None [] [])
   \<and> renderSectorHeatmap sample_host sample_summary (page_of None [] [])
        = Threw TypeError (page_of None [] [])
   \<and> renderStockTable sample_host [stock_AAA] [] (page_of None [] [])
        = Threw TypeError (page_of None [] [])
   \<and> renderList sample_host ''top-gainers'' (Val [stock_AAA]) True (page_of None [] [])
        = Threw TypeError (page_of None [] [])
   \<and> renderList sample_host ''top-gainers'' (Val []) True (page_of None [] [])
        = Done () (page_of None [] [])"
proof -
  have n: "getElementById (page_of None [] []) i = None" for i
    by (simp add: getElementById_def page_of_def)
  show ?thesis
    using n
      C5_absent_container [of "page_of None [] []" sample_host "summary_of []" "[stock_AAA]" "[]"
        "''top-gainers''" "Val [stock_AAA]" True]
      C5_absent_container [of "page_of None [] []" sample_host sample_summary "[stock_AAA]" "[]"
        "''top-gainers''" "Val []" True]
    by (simp add: summary_of_def sample_summary_def)
qed

section \<open>Detail page: missing data\<close>

text \<open>
  The candlestick chart reads \<open>data.indicators[ma.key]\<close> without a guard: it never returns for
  a document without an indicator set. The three optional charts are guarded with
  \<open>data.indicators?.\<close>, and are skipped when their data is missing.
\<close>

lemma drawCandlestickChart_needs_indicators:
  assumes "\<forall>ind. detail.indicators data \<noteq> Val ind"
  shows "\<forall>c q. drawCandlestickChart container data p \<noteq> Done c q"
  using assms
  by (auto simp: drawCandlestickChart_def and_then_def split: result.splits nullable.splits)

lemma draw_bollinger_skipped:
  assumes "\<forall>b. indicator bollinger data \<noteq> Val b"
  shows "draw_bollinger ds closes data p = Done () p"
  using assms by (cases "indicator bollinger data") (simp_all add: draw_bollinger_def)

lemma missing_bollinger_leaves_container:
  "(case detail_init sample_host (\<lambda>url. Loaded detail_without_bollinger) (Some ''AAA'') detail_page of
      Done u q \<Rightarrow>
        getElementById q ''bollinger-chart'' = getElementById detail_page ''bollinger-chart''
        \<and> map fst (chart_options q) = [1, 0]
    | Threw e q \<Rightarrow> False)"
  by code_simp

text \<open>
  C6. A detail document with metrics, technicals and a price history but no \<open>indicators\<close>
  object: \<open>init\<close> ends with a \<open>TypeError\<close> raised in \<open>drawCandlestickChart\<close>; no chart has
  received its options and the key statistics are never rendered.
\<close>

theorem C6_missing_indicators_throws:
  "detail.indicators detail_without_indicators = Undefined
   \<and> (case detail_init sample_host (\<lambda>url. Loaded detail_without_indicators) (Some ''AAA'') detail_page of
         Done u q \<Rightarrow> False
       | Threw e q \<Rightarrow>
           e = TypeError
           \<and> map_option content (getElementById q ''key-stats'') = Some Static
           \<and> chart_options q = [])"
  by code_simp

section \<open>The sparkline registry\<close>

subsection \<open>Elements\<close>






lemma set_value_ids [simp]: "map elem_id (set_value i v es) = map elem_id es"
  by (induction es) auto

lemma set_value_static [simp]:
  "map elem_id (filter (\<lambda>e. owner e = []) (set_value i v es))
     = map elem_id (filter (\<lambda>e. owner e = []) es)"
  by (induction es) auto

lemma set_value_attached [simp]: "map attached (set_value i v es) = map attached es"
  by (induction es) auto



lemma set_value_ids_set [simp]: "elem_id ` set (set_value i v es) = elem_id ` set es"
  using set_value_ids [of i v es] by (metis set_map)


lemma attach_static [simp]:
  "map elem_id (filter (\<lambda>e. owner e = []) (attach i c es))
     = map elem_id (filter (\<lambda>e. owner e = []) es)"
  by (induction es) auto






subsection \<open>The sparkline callback\<close>

lemma setOption_fields [simp]:
  "elements (setOption c opt p) = elements p"
  "sparklineCharts (setOption c opt p) = sparklineCharts p"
  "next_instance (setOption c opt p) = next_instance p"
  "disposed (setOption c opt p) = disposed p"
  "frame_callbacks (setOption c opt p) = frame_callbacks p"
  "summaryData (setOption c opt p) = summaryData p"
  "allStocks (setOption c opt p) = allStocks p"
  "events (setOption c opt p) = events p"
  by (simp_all add: setOption_def)

lemma static_ids_elements: "elements q = elements p \<Longrightarrow> static_ids q = static_ids p"
  by (simp add: static_ids_def)








subsection \<open>Disposing the registry\<close>

lemma dispose_fields [simp]:
  "disposed (dispose c p) = disposed p @ [c]"
  "sparklineCharts (dispose c p) = sparklineCharts p"
  "next_instance (dispose c p) = next_instance p"
  "frame_callbacks (dispose c p) = frame_callbacks p"
  "summaryData (dispose c p) = summaryData p"
  "allStocks (dispose c p) = allStocks p"
  "events (dispose c p) = events p @ [Disposed c]"
  by (simp_all add: dispose_def)

lemma dispose_static [simp]: "static_ids (dispose c p) = static_ids p"
  by (simp add: dispose_def static_ids_def filter_map comp_def)






subsection \<open>Reading the controls\<close>



subsection \<open>One change event and its animation frame\<close>



















lemma dashboard_page_ready: "dashboard_ready dashboard_page"
  by code_simp


text \<open>
  Two change events without an animation frame between them are outside this statement: both
  callbacks then run in one frame, on the mounts of the second table.
\<close>

lemma two_changes_before_a_frame:
  "disposed (on_change sample_host ([], [], [], ''symbol-asc'')
      (animation_frame
         (on_change sample_host ([], [], [], ''symbol-asc'')
            (on_change sample_host ([], [], [], ''ytdReturn-desc'') dashboard_page)))) = [0, 0]"
  by code_simp

end
